theory Spec2Isabelle
  imports Main "HOL-Library.Word"
begin

unbundle bit_operations_syntax

section \<open>SCSI Primary Commands emulation (drivers/target/target_core_spc.c)\<close>

text \<open>
  A shallow embedding of the SPC command interpreter of the SCSI target core.
  Bytes are \<open>8 word\<close>; a buffer is a list of bytes addressed by offset; the
  running offsets and lengths of the C code are natural numbers, with the
  truncation of a narrower C type written out as \<open>mod 2 ^ w\<close> where the code
  stores into one.  A \<open>sense_reason_t\<close> other than zero is the \<open>Inl\<close> branch
  of a sum.
\<close>

type_synonym u8 = "8 word"
type_synonym u16 = "16 word"
type_synonym u32 = "32 word"
type_synonym u64 = "64 word"

subsection \<open>Constants of include/scsi/scsi_proto.h and target_core_base.h\<close>

named_theorems scsi_proto \<open>values of the protocol constants\<close>

definition TEST_UNIT_READY :: u8 where [scsi_proto]: "TEST_UNIT_READY = 0x00"
definition REQUEST_SENSE :: u8 where [scsi_proto]: "REQUEST_SENSE = 0x03"
definition READ_6 :: u8 where [scsi_proto]: "READ_6 = 0x08"
definition WRITE_6 :: u8 where [scsi_proto]: "WRITE_6 = 0x0a"
definition INQUIRY :: u8 where [scsi_proto]: "INQUIRY = 0x12"
definition MODE_SELECT :: u8 where [scsi_proto]: "MODE_SELECT = 0x15"
definition RESERVE :: u8 where [scsi_proto]: "RESERVE = 0x16"
definition RELEASE :: u8 where [scsi_proto]: "RELEASE = 0x17"
definition MODE_SENSE :: u8 where [scsi_proto]: "MODE_SENSE = 0x1a"
definition START_STOP :: u8 where [scsi_proto]: "START_STOP = 0x1b"
definition RECEIVE_DIAGNOSTIC :: u8 where [scsi_proto]: "RECEIVE_DIAGNOSTIC = 0x1c"
definition SEND_DIAGNOSTIC :: u8 where [scsi_proto]: "SEND_DIAGNOSTIC = 0x1d"
definition READ_CAPACITY :: u8 where [scsi_proto]: "READ_CAPACITY = 0x25"
definition READ_10 :: u8 where [scsi_proto]: "READ_10 = 0x28"
definition WRITE_10 :: u8 where [scsi_proto]: "WRITE_10 = 0x2a"
definition WRITE_VERIFY :: u8 where [scsi_proto]: "WRITE_VERIFY = 0x2e"
definition VERIFY :: u8 where [scsi_proto]: "VERIFY = 0x2f"
definition SYNCHRONIZE_CACHE :: u8 where [scsi_proto]: "SYNCHRONIZE_CACHE = 0x35"
definition WRITE_BUFFER :: u8 where [scsi_proto]: "WRITE_BUFFER = 0x3b"
definition WRITE_SAME :: u8 where [scsi_proto]: "WRITE_SAME = 0x41"
definition UNMAP :: u8 where [scsi_proto]: "UNMAP = 0x42"
definition LOG_SELECT :: u8 where [scsi_proto]: "LOG_SELECT = 0x4c"
definition LOG_SENSE :: u8 where [scsi_proto]: "LOG_SENSE = 0x4d"
definition MODE_SELECT_10 :: u8 where [scsi_proto]: "MODE_SELECT_10 = 0x55"
definition RESERVE_10 :: u8 where [scsi_proto]: "RESERVE_10 = 0x56"
definition RELEASE_10 :: u8 where [scsi_proto]: "RELEASE_10 = 0x57"
definition MODE_SENSE_10 :: u8 where [scsi_proto]: "MODE_SENSE_10 = 0x5a"
definition PERSISTENT_RESERVE_IN :: u8 where [scsi_proto]: "PERSISTENT_RESERVE_IN = 0x5e"
definition PERSISTENT_RESERVE_OUT :: u8 where [scsi_proto]: "PERSISTENT_RESERVE_OUT = 0x5f"
definition VARIABLE_LENGTH_CMD :: u8 where [scsi_proto]: "VARIABLE_LENGTH_CMD = 0x7f"
definition EXTENDED_COPY :: u8 where [scsi_proto]: "EXTENDED_COPY = 0x83"
definition RECEIVE_COPY_RESULTS :: u8 where [scsi_proto]: "RECEIVE_COPY_RESULTS = 0x84"
definition READ_16 :: u8 where [scsi_proto]: "READ_16 = 0x88"
definition COMPARE_AND_WRITE :: u8 where [scsi_proto]: "COMPARE_AND_WRITE = 0x89"
definition WRITE_16 :: u8 where [scsi_proto]: "WRITE_16 = 0x8a"
definition READ_ATTRIBUTE :: u8 where [scsi_proto]: "READ_ATTRIBUTE = 0x8c"
definition WRITE_ATTRIBUTE :: u8 where [scsi_proto]: "WRITE_ATTRIBUTE = 0x8d"
definition WRITE_VERIFY_16 :: u8 where [scsi_proto]: "WRITE_VERIFY_16 = 0x8e"
definition VERIFY_16 :: u8 where [scsi_proto]: "VERIFY_16 = 0x8f"
definition SYNCHRONIZE_CACHE_16 :: u8 where [scsi_proto]: "SYNCHRONIZE_CACHE_16 = 0x91"
definition WRITE_SAME_16 :: u8 where [scsi_proto]: "WRITE_SAME_16 = 0x93"
definition SERVICE_ACTION_IN_16 :: u8 where [scsi_proto]: "SERVICE_ACTION_IN_16 = 0x9e"
definition REPORT_LUNS :: u8 where [scsi_proto]: "REPORT_LUNS = 0xa0"
definition SECURITY_PROTOCOL_IN :: u8 where [scsi_proto]: "SECURITY_PROTOCOL_IN = 0xa2"
definition MAINTENANCE_IN :: u8 where [scsi_proto]: "MAINTENANCE_IN = 0xa3"
definition MAINTENANCE_OUT :: u8 where [scsi_proto]: "MAINTENANCE_OUT = 0xa4"
definition READ_12 :: u8 where [scsi_proto]: "READ_12 = 0xa8"
definition WRITE_12 :: u8 where [scsi_proto]: "WRITE_12 = 0xaa"
definition SECURITY_PROTOCOL_OUT :: u8 where [scsi_proto]: "SECURITY_PROTOCOL_OUT = 0xb5"

text \<open>Service actions.\<close>

definition WRITE_SAME_32 :: u8 where [scsi_proto]: "WRITE_SAME_32 = 0x0d"
definition SAI_READ_CAPACITY_16 :: u8 where [scsi_proto]: "SAI_READ_CAPACITY_16 = 0x10"
definition SAI_REPORT_REFERRALS :: u8 where [scsi_proto]: "SAI_REPORT_REFERRALS = 0x13"
definition MI_REPORT_TARGET_PGS :: u8 where [scsi_proto]: "MI_REPORT_TARGET_PGS = 0x0a"
definition MI_REPORT_SUPPORTED_OPERATION_CODES :: u8 where
  [scsi_proto]: "MI_REPORT_SUPPORTED_OPERATION_CODES = 0x0c"
definition MO_SET_TARGET_PGS :: u8 where [scsi_proto]: "MO_SET_TARGET_PGS = 0x0a"
definition PRI_READ_KEYS :: u8 where [scsi_proto]: "PRI_READ_KEYS = 0x00"
definition PRI_READ_RESERVATION :: u8 where [scsi_proto]: "PRI_READ_RESERVATION = 0x01"
definition PRI_REPORT_CAPABILITIES :: u8 where [scsi_proto]: "PRI_REPORT_CAPABILITIES = 0x02"
definition PRI_READ_FULL_STATUS :: u8 where [scsi_proto]: "PRI_READ_FULL_STATUS = 0x03"
definition PRO_REGISTER :: u8 where [scsi_proto]: "PRO_REGISTER = 0x00"
definition PRO_RESERVE :: u8 where [scsi_proto]: "PRO_RESERVE = 0x01"
definition PRO_RELEASE :: u8 where [scsi_proto]: "PRO_RELEASE = 0x02"
definition PRO_CLEAR :: u8 where [scsi_proto]: "PRO_CLEAR = 0x03"
definition PRO_PREEMPT :: u8 where [scsi_proto]: "PRO_PREEMPT = 0x04"
definition PRO_PREEMPT_AND_ABORT :: u8 where [scsi_proto]: "PRO_PREEMPT_AND_ABORT = 0x05"
definition PRO_REGISTER_AND_IGNORE_EXISTING_KEY :: u8 where
  [scsi_proto]: "PRO_REGISTER_AND_IGNORE_EXISTING_KEY = 0x06"
definition PRO_REGISTER_AND_MOVE :: u8 where [scsi_proto]: "PRO_REGISTER_AND_MOVE = 0x07"
definition PRO_REPLACE_LOST_RESERVATION :: u8 where
  [scsi_proto]: "PRO_REPLACE_LOST_RESERVATION = 0x08"
definition RCR_SA_OPERATING_PARAMETERS :: u8 where
  [scsi_proto]: "RCR_SA_OPERATING_PARAMETERS = 0x03"

text \<open>Peripheral device types, status, usage-bit masks and buffer sizes.\<close>

definition TYPE_DISK :: u32 where [scsi_proto]: "TYPE_DISK = 0x00"
definition TYPE_TAPE :: u32 where [scsi_proto]: "TYPE_TAPE = 0x01"
definition TYPE_ROM :: u32 where [scsi_proto]: "TYPE_ROM = 0x05"
definition SAM_STAT_GOOD :: u8 where [scsi_proto]: "SAM_STAT_GOOD = 0x00"
definition SCSI_CONTROL_MASK :: u8 where [scsi_proto]: "SCSI_CONTROL_MASK = 0"
definition SCSI_GROUP_NUMBER_MASK :: u8 where [scsi_proto]: "SCSI_GROUP_NUMBER_MASK = 0"
definition SCSI_SUPPORT_NOT_SUPPORTED :: u8 where [scsi_proto]: "SCSI_SUPPORT_NOT_SUPPORTED = 1"
definition SCSI_SUPPORT_FULL :: u8 where [scsi_proto]: "SCSI_SUPPORT_FULL = 3"
definition TPGS_EXPLICIT_ALUA :: u8 where [scsi_proto]: "TPGS_EXPLICIT_ALUA = 0x20"
definition INQUIRY_VENDOR_LEN :: nat where [scsi_proto]: "INQUIRY_VENDOR_LEN = 8"
definition INQUIRY_MODEL_LEN :: nat where [scsi_proto]: "INQUIRY_MODEL_LEN = 16"
definition INQUIRY_REVISION_LEN :: nat where [scsi_proto]: "INQUIRY_REVISION_LEN = 4"
definition INQUIRY_VPD_SERIAL_LEN :: nat where [scsi_proto]: "INQUIRY_VPD_SERIAL_LEN = 254"
definition SE_MODE_PAGE_BUF :: nat where [scsi_proto]: "SE_MODE_PAGE_BUF = 512"
definition SCSI_PROTOCOL_FCP :: u32 where [scsi_proto]: "SCSI_PROTOCOL_FCP = 0"
definition SCSI_PROTOCOL_SBP :: u32 where [scsi_proto]: "SCSI_PROTOCOL_SBP = 3"
definition SCSI_PROTOCOL_SRP :: u32 where [scsi_proto]: "SCSI_PROTOCOL_SRP = 4"
definition SCSI_PROTOCOL_ISCSI :: u32 where [scsi_proto]: "SCSI_PROTOCOL_ISCSI = 5"
definition SCSI_PROTOCOL_SAS :: u32 where [scsi_proto]: "SCSI_PROTOCOL_SAS = 6"
definition SCSI_VERSION_DESCRIPTOR_SAM5 :: u16 where
  [scsi_proto]: "SCSI_VERSION_DESCRIPTOR_SAM5 = 0x00a0"
definition SCSI_VERSION_DESCRIPTOR_SAS3 :: u16 where
  [scsi_proto]: "SCSI_VERSION_DESCRIPTOR_SAS3 = 0x0c60"
definition SCSI_VERSION_DESCRIPTOR_FCP4 :: u16 where
  [scsi_proto]: "SCSI_VERSION_DESCRIPTOR_FCP4 = 0x0a40"
definition SCSI_VERSION_DESCRIPTOR_ISCSI :: u16 where
  [scsi_proto]: "SCSI_VERSION_DESCRIPTOR_ISCSI = 0x0960"
definition SCSI_VERSION_DESCRIPTOR_SBP3 :: u16 where
  [scsi_proto]: "SCSI_VERSION_DESCRIPTOR_SBP3 = 0x0980"
definition SCSI_VERSION_DESCRIPTOR_SRP :: u16 where
  [scsi_proto]: "SCSI_VERSION_DESCRIPTOR_SRP = 0x0940"
definition SCSI_VERSION_DESCRIPTOR_SPC4 :: u16 where
  [scsi_proto]: "SCSI_VERSION_DESCRIPTOR_SPC4 = 0x0460"
definition SCSI_VERSION_DESCRIPTOR_SBC3 :: u16 where
  [scsi_proto]: "SCSI_VERSION_DESCRIPTOR_SBC3 = 0x04c0"

subsection \<open>Byte buffers\<close>

text \<open>
  \<open>buf[i] = v\<close> is \<open>buf[i := v]\<close> and \<open>buf[i] |= v\<close> is \<open>set_bits\<close>.  The C
  code never checks an index against the size of its scratch buffer; a store
  past the end, undefined in C, leaves the list as it is.
\<close>

definition set_bits :: "u8 list \<Rightarrow> nat \<Rightarrow> u8 \<Rightarrow> u8 list" where
  "set_bits buf i v = buf[i := (buf ! i) OR v]"

definition clear_bits :: "u8 list \<Rightarrow> nat \<Rightarrow> u8 \<Rightarrow> u8 list" where
  "clear_bits buf i v = buf[i := (buf ! i) AND NOT v]"

fun memcpy :: "u8 list \<Rightarrow> nat \<Rightarrow> u8 list \<Rightarrow> u8 list" where
  "memcpy buf off [] = buf"
| "memcpy buf off (b # bs) = memcpy (buf[off := b]) (Suc off) bs"

definition memset :: "u8 list \<Rightarrow> nat \<Rightarrow> u8 \<Rightarrow> nat \<Rightarrow> u8 list" where
  "memset buf off v n = memcpy buf off (replicate n v)"

definition be16 :: "u16 \<Rightarrow> u8 list" where
  "be16 v = [ucast (drop_bit 8 v), ucast v]"

definition be24 :: "u32 \<Rightarrow> u8 list" where
  "be24 v = [ucast (drop_bit 16 v), ucast (drop_bit 8 v), ucast v]"

definition be32 :: "u32 \<Rightarrow> u8 list" where
  "be32 v = [ucast (drop_bit 24 v), ucast (drop_bit 16 v), ucast (drop_bit 8 v), ucast v]"

definition be64 :: "u64 \<Rightarrow> u8 list" where
  "be64 v = [ucast (drop_bit 56 v), ucast (drop_bit 48 v), ucast (drop_bit 40 v),
             ucast (drop_bit 32 v), ucast (drop_bit 24 v), ucast (drop_bit 16 v),
             ucast (drop_bit 8 v), ucast v]"

definition put_unaligned_be16 :: "u16 \<Rightarrow> u8 list \<Rightarrow> nat \<Rightarrow> u8 list" where
  "put_unaligned_be16 v buf off = memcpy buf off (be16 v)"

definition put_unaligned_be32 :: "u32 \<Rightarrow> u8 list \<Rightarrow> nat \<Rightarrow> u8 list" where
  "put_unaligned_be32 v buf off = memcpy buf off (be32 v)"

definition put_unaligned_be64 :: "u64 \<Rightarrow> u8 list \<Rightarrow> nat \<Rightarrow> u8 list" where
  "put_unaligned_be64 v buf off = memcpy buf off (be64 v)"

definition get_unaligned_be16 :: "u8 list \<Rightarrow> nat \<Rightarrow> u16" where
  "get_unaligned_be16 p off = push_bit 8 (ucast (p ! off)) OR ucast (p ! (off + 1))"

definition get_unaligned_be24 :: "u8 list \<Rightarrow> nat \<Rightarrow> u32" where
  "get_unaligned_be24 p off =
     push_bit 16 (ucast (p ! off)) OR push_bit 8 (ucast (p ! (off + 1)))
       OR ucast (p ! (off + 2))"

definition get_unaligned_be32 :: "u8 list \<Rightarrow> nat \<Rightarrow> u32" where
  "get_unaligned_be32 p off =
     push_bit 24 (ucast (p ! off)) OR push_bit 16 (ucast (p ! (off + 1)))
       OR push_bit 8 (ucast (p ! (off + 2))) OR ucast (p ! (off + 3))"

text \<open>
  C strings: a \<open>char\<close> array holds the string up to its first NUL.
  \<open>sprintf("%s")\<close> stores the characters and a terminating NUL and returns
  the number of characters.
\<close>

definition cstr :: "u8 list \<Rightarrow> u8 list" where
  "cstr a = takeWhile (\<lambda>c. c \<noteq> 0) a"

definition strnlen :: "u8 list \<Rightarrow> nat \<Rightarrow> nat" where
  "strnlen a n = length (takeWhile (\<lambda>c. c \<noteq> 0) (take n a))"

definition sprintf :: "u8 list \<Rightarrow> nat \<Rightarrow> u8 list \<Rightarrow> u8 list \<times> nat" where
  "sprintf buf off s = (memcpy buf off (s @ [0]), length s)"

subsection \<open>Device, LUN, session and command\<close>

datatype sense_reason =
    TCM_UNSUPPORTED_SCSI_OPCODE
  | TCM_INVALID_CDB_FIELD
  | TCM_UNKNOWN_MODE_PAGE
  | TCM_PARAMETER_LIST_LENGTH_ERROR
  | TCM_INVALID_PARAMETER_LIST
  | TCM_LOGICAL_UNIT_COMMUNICATION_FAILURE
  | NULL_SESSION_DEREFERENCE

text \<open>
  The last constructor is not a sense reason: it stands for the kernel fault
  of reading through \<open>cmd->se_sess\<close> when the command has no session, on
  the paths that read it without a check.
\<close>

datatype target_prot_type =
    TARGET_DIF_TYPE0_PROT | TARGET_DIF_TYPE1_PROT | TARGET_DIF_TYPE2_PROT | TARGET_DIF_TYPE3_PROT

datatype target_ua_intlck_ctrl =
    TARGET_UA_INTLCK_CTRL_CLEAR | TARGET_UA_INTLCK_CTRL_NO_CLEAR | TARGET_UA_INTLCK_CTRL_ESTABLISH_UA

datatype sam_task_attr = TCM_SIMPLE_TAG | TCM_HEAD_TAG | TCM_ORDERED_TAG | TCM_ACA_TAG

datatype execute_fn =
    Exec_spc_emulate_modeselect
  | Exec_spc_emulate_modesense
  | Exec_target_scsi3_emulate_pr_in
  | Exec_target_scsi3_emulate_pr_out
  | Exec_target_scsi2_reservation_release
  | Exec_target_scsi2_reservation_reserve
  | Exec_spc_emulate_request_sense
  | Exec_spc_emulate_inquiry
  | Exec_target_do_xcopy
  | Exec_target_do_receive_copy_results
  | Exec_spc_emulate_report_luns
  | Exec_spc_emulate_testunitready
  | Exec_target_emulate_report_target_port_groups
  | Exec_spc_emulate_report_supp_op_codes
  | Exec_target_emulate_set_target_port_groups

text \<open>
  The device as the emulation reads it: the attributes of \<open>dev_attrib\<close>, the
  T10 WWN strings, and the values the backend and ALUA accessors return
  (\<open>get_device_type\<close>, \<open>get_blocks\<close>, \<open>get_io_min\<close>, \<open>get_io_opt\<close>,
  \<open>target_check_wce\<close>, \<open>target_check_fua\<close>, \<open>target_sense_desc_format\<close>),
  taken as fields since their code is outside this file.
\<close>

record se_device =
  device_type :: u32
  df_emulated_vpd_unit_serial :: bool
  passthrough_pgr :: bool
  export_count :: nat
  vendor :: "u8 list"
  model :: "u8 list"
  revision :: "u8 list"
  unit_serial :: "u8 list"
  company_id :: u32
  emulate_3pc :: bool
  emulate_pr :: bool
  emulate_rsoc :: bool
  emulate_tpu :: bool
  emulate_tpws :: bool
  emulate_caw :: bool
  emulate_tas :: bool
  emulate_rest_reord :: bool
  emulate_ua_intlck_ctrl :: target_ua_intlck_ctrl
  unmap_zeroes_data :: bool
  is_nonrot :: bool
  pi_prot_type :: target_prot_type
  check_wce :: bool
  check_fua :: bool
  sense_desc_format :: bool
  blocks :: u64
  block_size :: u32
  hw_block_size :: u32
  hw_max_sectors :: u32
  optimal_sectors :: u32
  max_unmap_lba_count :: u32
  max_unmap_block_desc_count :: u32
  unmap_granularity :: u32
  unmap_granularity_alignment :: u32
  max_write_same_len :: u64
  io_min :: "u32 option"
  io_opt :: "u32 option"
  lba_map_list_empty :: bool
  lba_map_segment_size :: u32
  lba_map_segment_multiplier :: u32
  lu_gp_id :: "u16 option"

text \<open>
  The LUN with its portal group: \<open>lun_tg_pt_gp\<close> is the target port group
  (access type, id) when the pointer is set.
\<close>

record se_lun =
  lun_access_ro :: bool
  lun_is_rdonly :: bool
  lun_tg_pt_gp :: "(u8 \<times> u16) option"
  proto_id :: u32
  tpg_rtpi :: u16
  tpg_tag :: u16
  tpg_wwn :: "u8 list"

record se_session =
  sup_prot_pass :: bool
  sess_prot_type :: target_prot_type
  lun_entry_hlist :: "u64 list"

record exec_cmd_ops =
  execute_unmap :: bool
  execute_write_same :: bool

record se_cmd =
  t_task_cdb :: "u8 list"
  data_length :: nat
  kmap_data_sg :: "u8 list option"
  se_dev :: se_device
  se_lun :: se_lun
  se_sess :: "se_session option"
  protocol_data :: exec_cmd_ops
  max_data_sg_nents :: u32
  execute_cmd :: "execute_fn option"
  task_attr :: sam_task_attr

text \<open>
  Memory allocation (\<open>kzalloc\<close>) is taken to succeed.
  What \<open>target_complete_cmd\<close> and \<open>target_complete_cmd_with_length\<close>
  record: the status, the length when one is given, and the data buffer of
  the command as the emulation leaves it.
\<close>

record completion =
  scsi_status :: u8
  compl_length :: "nat option"
  data_sg :: "u8 list option"

subsection \<open>The dispatcher\<close>

definition spc_parse_cdb :: "se_cmd \<Rightarrow> sense_reason + (se_cmd \<times> u32)" where
  "spc_parse_cdb cmd =
    (let dev = se_dev cmd; cdb = t_task_cdb cmd; op = cdb ! 0 in
     if (op = RESERVE \<or> op = RESERVE_10 \<or> op = RELEASE \<or> op = RELEASE_10)
        \<and> \<not> emulate_pr dev then Inl TCM_UNSUPPORTED_SCSI_OPCODE
     else if (op = RESERVE \<or> op = RESERVE_10 \<or> op = RELEASE \<or> op = RELEASE_10)
        \<and> passthrough_pgr dev then Inl TCM_UNSUPPORTED_SCSI_OPCODE
     else if (op = PERSISTENT_RESERVE_IN \<or> op = PERSISTENT_RESERVE_OUT)
        \<and> \<not> emulate_pr dev then Inl TCM_UNSUPPORTED_SCSI_OPCODE
     else if op = MODE_SELECT then
       Inr (cmd\<lparr>execute_cmd := Some Exec_spc_emulate_modeselect\<rparr>, ucast (cdb ! 4))
     else if op = MODE_SELECT_10 then
       Inr (cmd\<lparr>execute_cmd := Some Exec_spc_emulate_modeselect\<rparr>,
            ucast (get_unaligned_be16 cdb 7))
     else if op = MODE_SENSE then
       Inr (cmd\<lparr>execute_cmd := Some Exec_spc_emulate_modesense\<rparr>, ucast (cdb ! 4))
     else if op = MODE_SENSE_10 then
       Inr (cmd\<lparr>execute_cmd := Some Exec_spc_emulate_modesense\<rparr>,
            ucast (get_unaligned_be16 cdb 7))
     else if op = LOG_SELECT \<or> op = LOG_SENSE then
       Inr (cmd, ucast (get_unaligned_be16 cdb 7))
     else if op = PERSISTENT_RESERVE_IN then
       Inr (cmd\<lparr>execute_cmd := Some Exec_target_scsi3_emulate_pr_in\<rparr>,
            ucast (get_unaligned_be16 cdb 7))
     else if op = PERSISTENT_RESERVE_OUT then
       Inr (cmd\<lparr>execute_cmd := Some Exec_target_scsi3_emulate_pr_out\<rparr>,
            get_unaligned_be32 cdb 5)
     else if op = RELEASE \<or> op = RELEASE_10 then
       Inr (cmd\<lparr>execute_cmd := Some Exec_target_scsi2_reservation_release\<rparr>,
            if op = RELEASE_10 then ucast (get_unaligned_be16 cdb 7)
            else word_of_nat (data_length cmd))
     else if op = RESERVE \<or> op = RESERVE_10 then
       Inr (cmd\<lparr>execute_cmd := Some Exec_target_scsi2_reservation_reserve\<rparr>,
            if op = RESERVE_10 then ucast (get_unaligned_be16 cdb 7)
            else word_of_nat (data_length cmd))
     else if op = REQUEST_SENSE then
       Inr (cmd\<lparr>execute_cmd := Some Exec_spc_emulate_request_sense\<rparr>, ucast (cdb ! 4))
     else if op = INQUIRY then
       Inr (cmd\<lparr>task_attr := TCM_HEAD_TAG, execute_cmd := Some Exec_spc_emulate_inquiry\<rparr>,
            ucast (get_unaligned_be16 cdb 3))
     else if op = SECURITY_PROTOCOL_IN \<or> op = SECURITY_PROTOCOL_OUT then
       Inr (cmd, get_unaligned_be32 cdb 6)
     else if op = EXTENDED_COPY then
       Inr (cmd\<lparr>execute_cmd := Some Exec_target_do_xcopy\<rparr>, get_unaligned_be32 cdb 10)
     else if op = RECEIVE_COPY_RESULTS then
       Inr (cmd\<lparr>execute_cmd := Some Exec_target_do_receive_copy_results\<rparr>,
            get_unaligned_be32 cdb 10)
     else if op = READ_ATTRIBUTE \<or> op = WRITE_ATTRIBUTE then
       Inr (cmd, get_unaligned_be32 cdb 10)
     else if op = RECEIVE_DIAGNOSTIC \<or> op = SEND_DIAGNOSTIC then
       Inr (cmd, ucast (get_unaligned_be16 cdb 3))
     else if op = WRITE_BUFFER then
       Inr (cmd, get_unaligned_be24 cdb 6)
     else if op = REPORT_LUNS then
       Inr (cmd\<lparr>execute_cmd := Some Exec_spc_emulate_report_luns, task_attr := TCM_HEAD_TAG\<rparr>,
            get_unaligned_be32 cdb 6)
     else if op = TEST_UNIT_READY then
       Inr (cmd\<lparr>execute_cmd := Some Exec_spc_emulate_testunitready\<rparr>, 0)
     else if op = MAINTENANCE_IN then
       (if device_type dev \<noteq> TYPE_ROM then
          (let c1 = (if (cdb ! 1) AND 0x1f = MI_REPORT_TARGET_PGS
                     then cmd\<lparr>execute_cmd := Some Exec_target_emulate_report_target_port_groups\<rparr>
                     else cmd);
               c2 = (if (cdb ! 1) AND 0x1f = MI_REPORT_SUPPORTED_OPERATION_CODES
                     then c1\<lparr>execute_cmd := Some Exec_spc_emulate_report_supp_op_codes\<rparr>
                     else c1)
           in Inr (c2, get_unaligned_be32 cdb 6))
        else Inr (cmd, ucast (get_unaligned_be16 cdb 8)))
     else if op = MAINTENANCE_OUT then
       (if device_type dev \<noteq> TYPE_ROM then
          Inr (if cdb ! 1 = MO_SET_TARGET_PGS
               then cmd\<lparr>execute_cmd := Some Exec_target_emulate_set_target_port_groups\<rparr>
               else cmd, get_unaligned_be32 cdb 6)
        else Inr (cmd, ucast (get_unaligned_be16 cdb 8)))
     else Inl TCM_UNSUPPORTED_SCSI_OPCODE)"

subsection \<open>INQUIRY\<close>

definition spc_fill_alua_data :: "se_lun \<Rightarrow> u8 list \<Rightarrow> u8 list" where
  "spc_fill_alua_data lun buf =
    (let b = buf[5 := 0x80] in
     case lun_tg_pt_gp lun of
       None \<Rightarrow> b
     | Some (access_type, gp_id) \<Rightarrow> set_bits b 5 access_type)"

definition spc_find_scsi_transport_vd :: "u32 \<Rightarrow> u16" where
  "spc_find_scsi_transport_vd p =
    (if p = SCSI_PROTOCOL_FCP then SCSI_VERSION_DESCRIPTOR_FCP4
     else if p = SCSI_PROTOCOL_ISCSI then SCSI_VERSION_DESCRIPTOR_ISCSI
     else if p = SCSI_PROTOCOL_SAS then SCSI_VERSION_DESCRIPTOR_SAS3
     else if p = SCSI_PROTOCOL_SBP then SCSI_VERSION_DESCRIPTOR_SBP3
     else if p = SCSI_PROTOCOL_SRP then SCSI_VERSION_DESCRIPTOR_SRP
     else 0)"

text \<open>
  \<open>sess->sup_prot_ops & (TARGET_PROT_DIN_PASS | TARGET_PROT_DOUT_PASS)\<close> is
  the field \<open>sup_prot_pass\<close>; a protection type is set when it is not type 0.
\<close>

definition prot_configured :: "se_device \<Rightarrow> se_session \<Rightarrow> bool" where
  "prot_configured dev sess \<longleftrightarrow>
     pi_prot_type dev \<noteq> TARGET_DIF_TYPE0_PROT \<or> sess_prot_type sess \<noteq> TARGET_DIF_TYPE0_PROT"

definition spc_emulate_inquiry_std :: "se_cmd \<Rightarrow> u8 list \<Rightarrow> sense_reason + u8 list" where
  "spc_emulate_inquiry_std cmd buf =
    (case se_sess cmd of
       None \<Rightarrow> Inl NULL_SESSION_DEREFERENCE
     | Some sess \<Rightarrow>
        (let lun = se_lun cmd; dev = se_dev cmd;
           b = (if device_type dev = TYPE_TAPE then buf[1 := 0x80] else buf);
           b = b[2 := 0x06];
           b = b[3 := 2];
           b = spc_fill_alua_data lun b;
           b = (if emulate_3pc dev then set_bits b 5 0x8 else b);
           b = (if sup_prot_pass sess \<and> prot_configured dev sess then set_bits b 5 0x1 else b);
           b = (if export_count dev > 1 then set_bits b 6 0x10 else b);
           b = b[7 := 0x2];
           b = memset b 8 0x20 (INQUIRY_VENDOR_LEN + INQUIRY_MODEL_LEN + INQUIRY_REVISION_LEN);
           b = memcpy b 8 (take (strnlen (vendor dev) INQUIRY_VENDOR_LEN) (vendor dev));
           b = memcpy b 16 (take (strnlen (model dev) INQUIRY_MODEL_LEN) (model dev));
           b = memcpy b 32 (take (strnlen (revision dev) INQUIRY_REVISION_LEN) (revision dev));
           b = put_unaligned_be16 SCSI_VERSION_DESCRIPTOR_SAM5 b 58;
           b = put_unaligned_be16 (spc_find_scsi_transport_vd (proto_id lun)) b 60;
           b = put_unaligned_be16 SCSI_VERSION_DESCRIPTOR_SPC4 b 62;
           b = (if device_type dev = TYPE_DISK
                then put_unaligned_be16 SCSI_VERSION_DESCRIPTOR_SBC3 b 64 else b);
           b = b[4 := 91]
         in Inr b))"


text \<open>
  \<open>hex_to_bin\<close> (lib/hexdump.c): the value of a hexadecimal digit of either
  case, and \<open>None\<close> for the C result -1 on any other character.
\<close>

definition hex_to_bin :: "u8 \<Rightarrow> u8 option" where
  "hex_to_bin ch =
    (if 0x30 \<le> ch \<and> ch \<le> 0x39 then Some (ch - 0x30)
     else if 0x61 \<le> ch \<and> ch \<le> 0x66 then Some (ch - 0x61 + 10)
     else if 0x41 \<le> ch \<and> ch \<le> 0x46 then Some (ch - 0x41 + 10)
     else None)"

text \<open>
  The loop of \<open>spc_gen_naa_6h_vendor_specific\<close> over the serial number:
  \<open>off\<close> counts from the start of the designator at \<open>base\<close>, \<open>next\<close> says
  whether the low nibble of \<open>buf[off]\<close> is the one to fill.
\<close>

fun naa_fill :: "u8 list \<Rightarrow> nat \<Rightarrow> nat \<Rightarrow> nat \<Rightarrow> bool \<Rightarrow> u8 list \<Rightarrow> u8 list" where
  "naa_fill buf base off cnt nxt [] = buf"
| "naa_fill buf base off cnt nxt (c # p) =
    (if c = 0 \<or> \<not> off < cnt then buf
     else case hex_to_bin c of
       None \<Rightarrow> naa_fill buf base off cnt nxt p
     | Some val \<Rightarrow>
         if nxt then naa_fill (set_bits buf (base + off) val) base (off + 1) cnt False p
         else naa_fill (buf[base + off := push_bit 4 val]) base off cnt True p)"

definition spc_gen_naa_6h_vendor_specific :: "se_device \<Rightarrow> u8 list \<Rightarrow> nat \<Rightarrow> u8 list" where
  "spc_gen_naa_6h_vendor_specific dev buf base =
    (let cid = company_id dev;
         b = buf[base := push_bit 4 0x6];
         b = set_bits b base (ucast (drop_bit 20 cid AND 0xf));
         b = b[base + 1 := ucast (drop_bit 12 cid AND 0xff)];
         b = b[base + 2 := ucast (drop_bit 4 cid AND 0xff)];
         b = b[base + 3 := push_bit 4 (ucast (cid AND 0xf))]
     in naa_fill b base 3 (3 + 13) True (unit_serial dev))"

text \<open>\<open>%04x\<close> of a 16-bit value: four lower-case hexadecimal digits.\<close>

definition hex_digit :: "u16 \<Rightarrow> u8" where
  "hex_digit d = (if d < 10 then 0x30 + ucast d else 0x61 + (ucast d - 10))"

definition hex04 :: "u16 \<Rightarrow> u8 list" where
  "hex04 v = map (\<lambda>s. hex_digit (drop_bit s v AND 0xf)) [12, 8, 4, 0]"

text \<open>
  The SCSI name string length: one more than the characters printed, padded
  to a multiple of four by \<open>(-len) & 3\<close> in 32-bit arithmetic, at most 256.
\<close>

definition scsi_name_pad :: "nat \<Rightarrow> nat" where
  "scsi_name_pad printed =
    (let l = printed + 1;
         padding = unat ((- (word_of_nat l :: u32)) AND 3);
         l = (if padding \<noteq> 0 then l + padding else l)
     in if l > 256 then 256 else l)"

text \<open>
  The common head of a designator that carries the protocol identifier:
  \<open>buf[off] = proto_id << 4; buf[off++] |= code_set; buf[off] = 0x80;
  buf[off] |= assoc; buf[off++] |= dtype\<close>.
\<close>

definition designator_head :: "u8 list \<Rightarrow> nat \<Rightarrow> u32 \<Rightarrow> u8 \<Rightarrow> u8 \<Rightarrow> u8 \<Rightarrow> u8 list" where
  "designator_head buf off proto code_set assoc dtype =
    (let b = buf[off := ucast (push_bit 4 proto)];
         b = set_bits b off code_set;
         b = b[off + 1 := 0x80];
         b = set_bits b (off + 1) assoc
     in set_bits b (off + 1) dtype)"

text \<open>
  \<open>spc_emulate_evpd_83\<close>, one definition for each designator block of
  the function (the blocks between its labels), each taking and returning
  the buffer, the 16-bit \<open>len\<close> and the running offset \<open>off\<close>.
\<close>

type_synonym evpd_83_state = "u8 list \<times> nat \<times> nat"

definition evpd_83_naa :: "se_device \<Rightarrow> u8 list \<Rightarrow> evpd_83_state" where
  "evpd_83_naa dev buf =
    (if \<not> df_emulated_vpd_unit_serial dev then (buf, 0, 4)
     else let b = buf[4 := 0x1];
              b = b[5 := 0x00];
              b = set_bits b 5 0x3;
              b = b[7 := 0x10];
              b = spc_gen_naa_6h_vendor_specific dev b 8
          in (b, 20, 20 + 4))"

definition evpd_83_t10_vend_desc :: "se_device \<Rightarrow> evpd_83_state \<Rightarrow> evpd_83_state" where
  "evpd_83_t10_vend_desc dev st =
    (let (b, len, off) = st;
         id_len = 8;
         (b, id_len) =
           (if df_emulated_vpd_unit_serial dev
            then let (b, n) = sprintf b (off + 12)
                                (cstr (model dev) @ [0x3a] @ cstr (unit_serial dev))
                 in (b, (id_len + n) mod 2 ^ 16)
            else (b, id_len));
         b = b[off := 0x2];
         b = b[off + 1 := 0x1];
         b = b[off + 2 := 0x0];
         b = memset b (off + 4) 0x20 INQUIRY_VENDOR_LEN;
         b = memcpy b (off + 4) (take (strnlen (vendor dev) INQUIRY_VENDOR_LEN) (vendor dev));
         id_len = (id_len + 1) mod 2 ^ 16;
         b = b[off + 3 := word_of_nat id_len]
     in (b, (len + (id_len + 4)) mod 2 ^ 16, off + (id_len + 4)))"

definition evpd_83_rtpi :: "se_lun \<Rightarrow> evpd_83_state \<Rightarrow> evpd_83_state" where
  "evpd_83_rtpi lun st =
    (let (b, len, off) = st;
         b = designator_head b off (proto_id lun) 0x1 0x10 0x4;
         b = b[off + 3 := 4];
         b = put_unaligned_be16 (tpg_rtpi lun) b (off + 6)
     in (b, (len + 8) mod 2 ^ 16, off + 8))"

definition evpd_83_tg_pt_gp :: "se_lun \<Rightarrow> evpd_83_state \<Rightarrow> evpd_83_state" where
  "evpd_83_tg_pt_gp lun st =
    (let (b, len, off) = st in
     case lun_tg_pt_gp lun of
       None \<Rightarrow> (b, len, off)
     | Some (access_type, tg_pt_gp_id) \<Rightarrow>
         let b = designator_head b off (proto_id lun) 0x1 0x10 0x5;
             b = b[off + 3 := 4];
             b = put_unaligned_be16 tg_pt_gp_id b (off + 6)
         in (b, (len + 8) mod 2 ^ 16, off + 8))"

definition evpd_83_lu_gp :: "se_device \<Rightarrow> evpd_83_state \<Rightarrow> evpd_83_state" where
  "evpd_83_lu_gp dev st =
    (let (b, len, off) = st in
     case lu_gp_id dev of
       None \<Rightarrow> (b, len, off)
     | Some gp_id \<Rightarrow>
         let b = set_bits b off 0x1;
             b = set_bits b (off + 1) 0x6;
             b = b[off + 3 := 4];
             b = put_unaligned_be16 gp_id b (off + 6)
         in (b, (len + 8) mod 2 ^ 16, off + 8))"

definition evpd_83_scsi_name :: "se_lun \<Rightarrow> evpd_83_state \<Rightarrow> evpd_83_state" where
  "evpd_83_scsi_name lun st =
    (let (b, len, off) = st;
         b = designator_head b off (proto_id lun) 0x3 0x10 0x8;
         off = off + 4;
         (b, n) = sprintf b off (cstr (tpg_wwn lun) @ [0x2c, 0x74, 0x2c, 0x30, 0x78]
                                  @ hex04 (tpg_tag lun));
         scsi_name_len = scsi_name_pad n;
         b = b[off - 1 := word_of_nat scsi_name_len]
     in (b, (len + (scsi_name_len + 4)) mod 2 ^ 16, off + scsi_name_len))"

definition evpd_83_target_name :: "se_lun \<Rightarrow> evpd_83_state \<Rightarrow> evpd_83_state" where
  "evpd_83_target_name lun st =
    (let (b, len, off) = st;
         b = designator_head b off (proto_id lun) 0x3 0x20 0x8;
         off = off + 4;
         (b, n) = sprintf b off (cstr (tpg_wwn lun));
         scsi_target_len = scsi_name_pad n;
         b = b[off - 1 := word_of_nat scsi_target_len]
     in (b, (len + (scsi_target_len + 4)) mod 2 ^ 16, off + scsi_target_len))"

text \<open>
  The whole function: the designators in their order, then the page length
  patched into bytes 2 and 3.  The result keeps, beside the buffer, the
  value of \<open>len\<close> and the offset at which encoding stopped.
\<close>

definition spc_emulate_evpd_83_run :: "se_cmd \<Rightarrow> u8 list \<Rightarrow> evpd_83_state" where
  "spc_emulate_evpd_83_run cmd buf =
    (let dev = se_dev cmd; lun = se_lun cmd;
         st = evpd_83_naa dev buf;
         st = evpd_83_t10_vend_desc dev st;
         st = evpd_83_rtpi lun st;
         st = evpd_83_tg_pt_gp lun st;
         st = evpd_83_lu_gp dev st;
         st = evpd_83_scsi_name lun st;
         (b, len, off) = evpd_83_target_name lun st
     in (put_unaligned_be16 (word_of_nat len) b 2, len, off))"

definition spc_emulate_evpd_83 :: "se_cmd \<Rightarrow> u8 list \<Rightarrow> sense_reason + u8 list" where
  "spc_emulate_evpd_83 cmd buf = Inr (fst (spc_emulate_evpd_83_run cmd buf))"













subsection \<open>MODE SENSE and MODE SELECT\<close>

text \<open>
  A mode page generator writes the page at \<open>p\<close> into the buffer and returns
  the buffer with the length of the page.  The control page reads the
  session; its result is \<open>None\<close> when it does so on a command without one.
\<close>

type_synonym modesense_fn = "se_cmd \<Rightarrow> u8 \<Rightarrow> u8 list \<Rightarrow> nat \<Rightarrow> (u8 list \<times> nat) option"

definition spc_modesense_rwrecovery :: modesense_fn where
  "spc_modesense_rwrecovery cmd pc buf p =
    (let b = buf[p := 0x01];
         b = b[p + 1 := 0x0a]
     in Some (b, 12))"

definition spc_modesense_control :: modesense_fn where
  "spc_modesense_control cmd pc buf p =
    (let dev = se_dev cmd;
         b = buf[p := 0x0a];
         b = b[p + 1 := 0x0a]
     in if pc = 1 then Some (b, 12)
        else case se_sess cmd of
          None \<Rightarrow> None
        | Some sess \<Rightarrow>
           (let b = b[p + 2 := push_bit 1 1];
                b = (if sense_desc_format dev then set_bits b (p + 2) (push_bit 2 1) else b);
                b = b[p + 3 := (if emulate_rest_reord dev then 0x00 else 0x10)];
                b = (case emulate_ua_intlck_ctrl dev of
                       TARGET_UA_INTLCK_CTRL_ESTABLISH_UA \<Rightarrow> b[p + 4 := 0x30]
                     | TARGET_UA_INTLCK_CTRL_NO_CLEAR \<Rightarrow> b[p + 4 := 0x20]
                     | TARGET_UA_INTLCK_CTRL_CLEAR \<Rightarrow> b[p + 4 := 0x00]);
                b = b[p + 5 := (if emulate_tas dev then 0x40 else 0x00)];
                b = (if sup_prot_pass sess \<and> prot_configured dev sess
                     then set_bits b (p + 5) 0x80 else b);
                b = b[p + 8 := 0xff];
                b = b[p + 9 := 0xff];
                b = b[p + 11 := 30]
            in Some (b, 12)))"

definition spc_modesense_caching :: modesense_fn where
  "spc_modesense_caching cmd pc buf p =
    (let dev = se_dev cmd;
         b = buf[p := 0x08];
         b = b[p + 1 := 0x12]
     in if pc = 1 then Some (b, 20)
        else let b = (if check_wce dev then b[p + 2 := 0x04] else b);
                 b = b[p + 12 := 0x20]
             in Some (b, 20))"

definition spc_modesense_informational_exceptions :: modesense_fn where
  "spc_modesense_informational_exceptions cmd pc buf p =
    (let b = buf[p := 0x1c];
         b = b[p + 1 := 0x0a]
     in Some (b, 12))"

definition modesense_handlers :: "(u8 \<times> u8 \<times> modesense_fn) list" where
  "modesense_handlers =
    [(0x01, 0x00, spc_modesense_rwrecovery),
     (0x08, 0x00, spc_modesense_caching),
     (0x0a, 0x00, spc_modesense_control),
     (0x1c, 0x00, spc_modesense_informational_exceptions)]"

definition spc_modesense_write_protect :: "u8 list \<Rightarrow> nat \<Rightarrow> u32 \<Rightarrow> u8 list" where
  "spc_modesense_write_protect buf i type = set_bits buf i 0x80"

definition spc_modesense_dpofua :: "u8 list \<Rightarrow> nat \<Rightarrow> u32 \<Rightarrow> u8 list" where
  "spc_modesense_dpofua buf i type = (if type = TYPE_DISK then set_bits buf i 0x10 else buf)"

definition spc_modesense_blockdesc :: "u8 list \<Rightarrow> nat \<Rightarrow> u64 \<Rightarrow> u32 \<Rightarrow> u8 list \<times> nat" where
  "spc_modesense_blockdesc buf p nblocks bsize =
    (let b = buf[p := 8];
         b = put_unaligned_be32 (ucast (min nblocks 0xffffffff)) b (p + 1);
         b = put_unaligned_be32 bsize b (p + 5)
     in (b, 9))"

definition spc_modesense_long_blockdesc :: "u8 list \<Rightarrow> nat \<Rightarrow> u64 \<Rightarrow> u32 \<Rightarrow> u8 list \<times> nat" where
  "spc_modesense_long_blockdesc buf p nblocks bsize =
    (if nblocks \<le> 0xffffffff then
       (let (b, n) = spc_modesense_blockdesc buf (p + 3) nblocks bsize in (b, n + 3))
     else
       (let b = buf[p := 1];
            b = b[p + 3 := 16];
            b = put_unaligned_be64 nblocks b (p + 4);
            b = put_unaligned_be32 bsize b (p + 16)
        in (b, 17)))"

text \<open>
  The loop of page code 0x3f over the handler table: a handler writes its
  page before the six-byte form checks whether the page still fits.
\<close>

fun modesense_all_pages ::
    "(u8 \<times> u8 \<times> modesense_fn) list \<Rightarrow> se_cmd \<Rightarrow> u8 \<Rightarrow> u8 \<Rightarrow> bool \<Rightarrow> u8 list \<Rightarrow> nat
       \<Rightarrow> (u8 list \<times> nat) option" where
  "modesense_all_pages [] cmd pc subpage ten buf len = Some (buf, len)"
| "modesense_all_pages ((pg, sp, emulate) # hs) cmd pc subpage ten buf len =
    (if sp AND NOT subpage = 0 then
       (case emulate cmd pc buf len of
          None \<Rightarrow> None
        | Some (b, ret) \<Rightarrow>
            if \<not> ten \<and> len + ret \<ge> 255 then Some (b, len)
            else modesense_all_pages hs cmd pc subpage ten b (len + ret))
     else modesense_all_pages hs cmd pc subpage ten buf len)"

definition modesense_set_length :: "se_cmd \<Rightarrow> bool \<Rightarrow> u8 list \<Rightarrow> nat \<Rightarrow> sense_reason + completion" where
  "modesense_set_length cmd ten buf len =
    (let b = (if ten then put_unaligned_be16 (word_of_nat (len - 2)) buf 0
              else buf[0 := word_of_nat (len - 1)]);
         rbuf = (case kmap_data_sg cmd of
                   None \<Rightarrow> None
                 | Some r \<Rightarrow> Some (memcpy r 0 (take (min SE_MODE_PAGE_BUF (data_length cmd)) b)))
     in Inr \<lparr> scsi_status = SAM_STAT_GOOD, compl_length = Some len, data_sg = rbuf \<rparr>)"

definition spc_emulate_modesense :: "se_cmd \<Rightarrow> sense_reason + completion" where
  "spc_emulate_modesense cmd =
    (let dev = se_dev cmd; cdb = t_task_cdb cmd;
         type = device_type dev;
         ten = (cdb ! 0 = MODE_SENSE_10);
         dbd = ((cdb ! 1) AND 0x08 \<noteq> 0);
         llba = (if ten then (cdb ! 1) AND 0x10 \<noteq> 0 else False);
         pc = drop_bit 6 (cdb ! 2);
         page = (cdb ! 2) AND 0x3f;
         subpage = cdb ! 3;
         buf = replicate SE_MODE_PAGE_BUF (0 :: u8);
         len = (if ten then 3 else 2);
         buf = (if lun_access_ro (se_lun cmd) \<or> lun_is_rdonly (se_lun cmd)
                then spc_modesense_write_protect buf len type else buf);
         buf = (if check_fua dev then spc_modesense_dpofua buf len type else buf);
         len = len + 1;
         (buf, len) =
           (if \<not> dbd \<and> type = TYPE_DISK then
              (if ten then
                 (if llba then
                    (let (b, n) = spc_modesense_long_blockdesc buf len (blocks dev) (block_size dev)
                     in (b, len + n))
                  else
                    (let (b, n) = spc_modesense_blockdesc buf (len + 3) (blocks dev) (block_size dev)
                     in (b, len + 3 + n)))
               else
                 (let (b, n) = spc_modesense_blockdesc buf len (blocks dev) (block_size dev)
                  in (b, len + n)))
            else (buf, if ten then len + 4 else len + 1))
     in if page = 0x3f then
          (if subpage \<noteq> 0x00 \<and> subpage \<noteq> 0xff then Inl TCM_INVALID_CDB_FIELD
           else case modesense_all_pages modesense_handlers cmd pc subpage ten buf len of
                  None \<Rightarrow> Inl NULL_SESSION_DEREFERENCE
                | Some (b, l) \<Rightarrow> modesense_set_length cmd ten b l)
        else
          (case find (\<lambda>(pg, sp, emulate). pg = page \<and> sp = subpage) modesense_handlers of
             Some (pg, sp, emulate) \<Rightarrow>
               (case emulate cmd pc buf len of
                  None \<Rightarrow> Inl NULL_SESSION_DEREFERENCE
                | Some (b, n) \<Rightarrow> modesense_set_length cmd ten b (len + n))
           | None \<Rightarrow> Inl TCM_UNKNOWN_MODE_PAGE))"

text \<open>
  MODE SELECT reads the parameter list from the mapped data buffer, finds
  the page at the fixed offset \<open>off\<close> and compares it with the current page.
\<close>

definition spc_emulate_modeselect :: "se_cmd \<Rightarrow> sense_reason + completion" where
  "spc_emulate_modeselect cmd =
    (let cdb = t_task_cdb cmd;
         ten = (cdb ! 0 = MODE_SELECT_10);
         off = (if ten then 8 else 4);
         pf = ((cdb ! 1) AND 0x10 \<noteq> 0);
         good = \<lparr> scsi_status = SAM_STAT_GOOD, compl_length = None,
                  data_sg = kmap_data_sg cmd \<rparr>
     in if data_length cmd = 0 then Inr good
        else if data_length cmd < off + 2 then Inl TCM_PARAMETER_LIST_LENGTH_ERROR
        else case kmap_data_sg cmd of
          None \<Rightarrow> Inl TCM_LOGICAL_UNIT_COMMUNICATION_FAILURE
        | Some buf \<Rightarrow>
            if \<not> pf then Inl TCM_INVALID_CDB_FIELD
            else
              (let page = (buf ! off) AND 0x3f;
                   subpage = (if (buf ! off) AND 0x40 \<noteq> 0 then buf ! (off + 1) else 0)
               in case find (\<lambda>(pg, sp, emulate). pg = page \<and> sp = subpage) modesense_handlers of
                    None \<Rightarrow> Inl TCM_UNKNOWN_MODE_PAGE
                  | Some (pg, sp, emulate) \<Rightarrow>
                      (case emulate cmd 0 (replicate SE_MODE_PAGE_BUF 0) 0 of
                         None \<Rightarrow> Inl NULL_SESSION_DEREFERENCE
                       | Some (tbuf, len) \<Rightarrow>
                           if data_length cmd < off + len
                           then Inl TCM_PARAMETER_LIST_LENGTH_ERROR
                           else if take len (drop off buf) \<noteq> take len tbuf
                           then Inl TCM_INVALID_PARAMETER_LIST
                           else Inr good)))"

subsection \<open>REPORT LUNS\<close>

text \<open>
  \<open>int_to_scsilun\<close> (drivers/scsi/scsi_common.c) is outside these sources:
  the emulation takes it as the parameter \<open>enc\<close>, the eight bytes of the
  \<open>struct scsi_lun\<close> it fills for a LUN.  The session holds the mapped LUNs
  of the entries of \<open>nacl->lun_entry_hlist\<close> in list order.  The counters are
  \<open>u32\<close>; \<open>data_length\<close> is taken below \<open>2 ^ 31\<close>, where the \<open>int\<close>
  comparison of \<open>min_t(int, sizeof len, cmd->data_length)\<close> is the comparison
  of the values.
\<close>




subsection \<open>The opcode descriptor table\<close>

text \<open>
  A descriptor of \<open>struct target_opcode_descriptor\<close>.  Its two function
  pointers are the names of the functions they point to, \<open>None\<close> for a
  null pointer; \<open>descr_enabled\<close> and \<open>descr_update_usage_bits\<close> call them.
\<close>

datatype enabled_fn =
    Tcm_is_ws_enabled | Tcm_is_caw_enabled | Tcm_is_rep_ref_enabled | Tcm_is_unmap_enabled
  | Tcm_is_pr_enabled | Tcm_is_3pc_enabled | Spc_rsoc_enabled | Tcm_is_set_tpg_enabled

datatype usage_fn = Set_dpofua_usage_bits | Set_dpofua_usage_bits32

record target_opcode_descriptor =
  support :: u8
  serv_action_valid :: bool
  opcode :: u8
  service_action :: u16
  cdb_size :: nat
  specific_timeout :: u8
  nominal_timeout :: u16
  recommended_timeout :: u16
  enabled :: "enabled_fn option"
  update_usage_bits :: "usage_fn option"
  usage_bits :: "u8 list"

definition set_dpofua_usage_bits :: "u8 list \<Rightarrow> nat \<Rightarrow> se_device \<Rightarrow> u8 list" where
  "set_dpofua_usage_bits buf base dev =
    (if \<not> check_fua dev then clear_bits buf (base + 1) 0x18 else set_bits buf (base + 1) 0x18)"

definition set_dpofua_usage_bits32 :: "u8 list \<Rightarrow> nat \<Rightarrow> se_device \<Rightarrow> u8 list" where
  "set_dpofua_usage_bits32 buf base dev =
    (if \<not> check_fua dev then clear_bits buf (base + 10) 0x18 else set_bits buf (base + 10) 0x18)"

definition tcm_is_ws_enabled :: "target_opcode_descriptor \<Rightarrow> se_cmd \<Rightarrow> bool" where
  "tcm_is_ws_enabled descr cmd \<longleftrightarrow>
     (emulate_tpws (se_dev cmd) \<and> execute_unmap (protocol_data cmd))
       \<or> execute_write_same (protocol_data cmd)"

definition tcm_is_caw_enabled :: "target_opcode_descriptor \<Rightarrow> se_cmd \<Rightarrow> bool" where
  "tcm_is_caw_enabled descr cmd \<longleftrightarrow> emulate_caw (se_dev cmd)"

definition tcm_is_rep_ref_enabled :: "target_opcode_descriptor \<Rightarrow> se_cmd \<Rightarrow> bool" where
  "tcm_is_rep_ref_enabled descr cmd \<longleftrightarrow> \<not> lba_map_list_empty (se_dev cmd)"

definition tcm_is_unmap_enabled :: "target_opcode_descriptor \<Rightarrow> se_cmd \<Rightarrow> bool" where
  "tcm_is_unmap_enabled descr cmd \<longleftrightarrow>
     execute_unmap (protocol_data cmd) \<and> emulate_tpu (se_dev cmd)"

definition tcm_is_pr_enabled :: "target_opcode_descriptor \<Rightarrow> se_cmd \<Rightarrow> bool" where
  "tcm_is_pr_enabled descr cmd =
    (let dev = se_dev cmd in
     if \<not> emulate_pr dev then False
     else if \<not> passthrough_pgr dev then True
     else if opcode descr = RESERVE \<or> opcode descr = RESERVE_10
             \<or> opcode descr = RELEASE \<or> opcode descr = RELEASE_10 then False
     else if opcode descr = PERSISTENT_RESERVE_OUT then
       (if service_action descr = ucast PRO_REGISTER_AND_MOVE
           \<or> service_action descr = ucast PRO_REPLACE_LOST_RESERVATION then False else True)
     else if opcode descr = PERSISTENT_RESERVE_IN then
       (if service_action descr = ucast PRI_READ_FULL_STATUS then False else True)
     else True)"

definition tcm_is_3pc_enabled :: "target_opcode_descriptor \<Rightarrow> se_cmd \<Rightarrow> bool" where
  "tcm_is_3pc_enabled descr cmd \<longleftrightarrow> emulate_3pc (se_dev cmd)"

definition spc_rsoc_enabled :: "target_opcode_descriptor \<Rightarrow> se_cmd \<Rightarrow> bool" where
  "spc_rsoc_enabled descr cmd \<longleftrightarrow> emulate_rsoc (se_dev cmd)"

definition tcm_is_set_tpg_enabled :: "target_opcode_descriptor \<Rightarrow> se_cmd \<Rightarrow> bool" where
  "tcm_is_set_tpg_enabled descr cmd =
    (case lun_tg_pt_gp (se_lun cmd) of
       None \<Rightarrow> False
     | Some (access_type, gp_id) \<Rightarrow> access_type AND TPGS_EXPLICIT_ALUA \<noteq> 0)"

fun call_enabled :: "enabled_fn \<Rightarrow> target_opcode_descriptor \<Rightarrow> se_cmd \<Rightarrow> bool" where
  "call_enabled Tcm_is_ws_enabled = tcm_is_ws_enabled"
| "call_enabled Tcm_is_caw_enabled = tcm_is_caw_enabled"
| "call_enabled Tcm_is_rep_ref_enabled = tcm_is_rep_ref_enabled"
| "call_enabled Tcm_is_unmap_enabled = tcm_is_unmap_enabled"
| "call_enabled Tcm_is_pr_enabled = tcm_is_pr_enabled"
| "call_enabled Tcm_is_3pc_enabled = tcm_is_3pc_enabled"
| "call_enabled Spc_rsoc_enabled = spc_rsoc_enabled"
| "call_enabled Tcm_is_set_tpg_enabled = tcm_is_set_tpg_enabled"

text \<open>\<open>!descr->enabled || descr->enabled(descr, cmd)\<close>\<close>

definition descr_enabled :: "target_opcode_descriptor \<Rightarrow> se_cmd \<Rightarrow> bool" where
  "descr_enabled descr cmd =
    (case enabled descr of None \<Rightarrow> True | Some f \<Rightarrow> call_enabled f descr cmd)"

definition descr_update_usage_bits ::
    "target_opcode_descriptor \<Rightarrow> u8 list \<Rightarrow> nat \<Rightarrow> se_device \<Rightarrow> u8 list" where
  "descr_update_usage_bits descr buf base dev =
    (case update_usage_bits descr of
       None \<Rightarrow> buf
     | Some Set_dpofua_usage_bits \<Rightarrow> set_dpofua_usage_bits buf base dev
     | Some Set_dpofua_usage_bits32 \<Rightarrow> set_dpofua_usage_bits32 buf base dev)"


named_theorems opcode_descr \<open>the descriptors of the table\<close>

definition tcm_opcode_read6 :: target_opcode_descriptor where
  [opcode_descr]: "tcm_opcode_read6 =
    \<lparr> support = SCSI_SUPPORT_FULL, serv_action_valid = False, opcode = READ_6,
      service_action = 0, cdb_size = 6,
      specific_timeout = 0, nominal_timeout = 0, recommended_timeout = 0,
      enabled = None, update_usage_bits = None,
      usage_bits =
      [READ_6, 0x1f, 0xff, 0xff, 0xff, SCSI_CONTROL_MASK] \<rparr>"

definition tcm_opcode_read10 :: target_opcode_descriptor where
  [opcode_descr]: "tcm_opcode_read10 =
    \<lparr> support = SCSI_SUPPORT_FULL, serv_action_valid = False, opcode = READ_10,
      service_action = 0, cdb_size = 10,
      specific_timeout = 0, nominal_timeout = 0, recommended_timeout = 0,
      enabled = None, update_usage_bits = Some Set_dpofua_usage_bits,
      usage_bits =
      [READ_10, 0xf8, 0xff, 0xff, 0xff, 0xff, SCSI_GROUP_NUMBER_MASK, 0xff,
       0xff, SCSI_CONTROL_MASK] \<rparr>"

definition tcm_opcode_read12 :: target_opcode_descriptor where
  [opcode_descr]: "tcm_opcode_read12 =
    \<lparr> support = SCSI_SUPPORT_FULL, serv_action_valid = False, opcode = READ_12,
      service_action = 0, cdb_size = 12,
      specific_timeout = 0, nominal_timeout = 0, recommended_timeout = 0,
      enabled = None, update_usage_bits = Some Set_dpofua_usage_bits,
      usage_bits =
      [READ_12, 0xf8, 0xff, 0xff, 0xff, 0xff, 0xff, 0xff, 0xff, 0xff,
       SCSI_GROUP_NUMBER_MASK, SCSI_CONTROL_MASK] \<rparr>"

definition tcm_opcode_read16 :: target_opcode_descriptor where
  [opcode_descr]: "tcm_opcode_read16 =
    \<lparr> support = SCSI_SUPPORT_FULL, serv_action_valid = False, opcode = READ_16,
      service_action = 0, cdb_size = 16,
      specific_timeout = 0, nominal_timeout = 0, recommended_timeout = 0,
      enabled = None, update_usage_bits = Some Set_dpofua_usage_bits,
      usage_bits =
      [READ_16, 0xf8, 0xff, 0xff, 0xff, 0xff, 0xff, 0xff, 0xff, 0xff, 0xff,
       0xff, 0xff, 0xff, SCSI_GROUP_NUMBER_MASK, SCSI_CONTROL_MASK] \<rparr>"

definition tcm_opcode_write6 :: target_opcode_descriptor where
  [opcode_descr]: "tcm_opcode_write6 =
    \<lparr> support = SCSI_SUPPORT_FULL, serv_action_valid = False, opcode = WRITE_6,
      service_action = 0, cdb_size = 6,
      specific_timeout = 0, nominal_timeout = 0, recommended_timeout = 0,
      enabled = None, update_usage_bits = None,
      usage_bits =
      [WRITE_6, 0x1f, 0xff, 0xff, 0xff, SCSI_CONTROL_MASK] \<rparr>"

definition tcm_opcode_write10 :: target_opcode_descriptor where
  [opcode_descr]: "tcm_opcode_write10 =
    \<lparr> support = SCSI_SUPPORT_FULL, serv_action_valid = False, opcode = WRITE_10,
      service_action = 0, cdb_size = 10,
      specific_timeout = 0, nominal_timeout = 0, recommended_timeout = 0,
      enabled = None, update_usage_bits = Some Set_dpofua_usage_bits,
      usage_bits =
      [WRITE_10, 0xf8, 0xff, 0xff, 0xff, 0xff, SCSI_GROUP_NUMBER_MASK, 0xff,
       0xff, SCSI_CONTROL_MASK] \<rparr>"

definition tcm_opcode_write_verify10 :: target_opcode_descriptor where
  [opcode_descr]: "tcm_opcode_write_verify10 =
    \<lparr> support = SCSI_SUPPORT_FULL, serv_action_valid = False, opcode = WRITE_VERIFY,
      service_action = 0, cdb_size = 10,
      specific_timeout = 0, nominal_timeout = 0, recommended_timeout = 0,
      enabled = None, update_usage_bits = Some Set_dpofua_usage_bits,
      usage_bits =
      [WRITE_VERIFY, 0xf0, 0xff, 0xff, 0xff, 0xff, SCSI_GROUP_NUMBER_MASK,
       0xff, 0xff, SCSI_CONTROL_MASK] \<rparr>"

definition tcm_opcode_write12 :: target_opcode_descriptor where
  [opcode_descr]: "tcm_opcode_write12 =
    \<lparr> support = SCSI_SUPPORT_FULL, serv_action_valid = False, opcode = WRITE_12,
      service_action = 0, cdb_size = 12,
      specific_timeout = 0, nominal_timeout = 0, recommended_timeout = 0,
      enabled = None, update_usage_bits = Some Set_dpofua_usage_bits,
      usage_bits =
      [WRITE_12, 0xf8, 0xff, 0xff, 0xff, 0xff, 0xff, 0xff, 0xff, 0xff,
       SCSI_GROUP_NUMBER_MASK, SCSI_CONTROL_MASK] \<rparr>"

definition tcm_opcode_write16 :: target_opcode_descriptor where
  [opcode_descr]: "tcm_opcode_write16 =
    \<lparr> support = SCSI_SUPPORT_FULL, serv_action_valid = False, opcode = WRITE_16,
      service_action = 0, cdb_size = 16,
      specific_timeout = 0, nominal_timeout = 0, recommended_timeout = 0,
      enabled = None, update_usage_bits = Some Set_dpofua_usage_bits,
      usage_bits =
      [WRITE_16, 0xf8, 0xff, 0xff, 0xff, 0xff, 0xff, 0xff, 0xff, 0xff, 0xff,
       0xff, 0xff, 0xff, SCSI_GROUP_NUMBER_MASK, SCSI_CONTROL_MASK] \<rparr>"

definition tcm_opcode_write_verify16 :: target_opcode_descriptor where
  [opcode_descr]: "tcm_opcode_write_verify16 =
    \<lparr> support = SCSI_SUPPORT_FULL, serv_action_valid = False, opcode = WRITE_VERIFY_16,
      service_action = 0, cdb_size = 16,
      specific_timeout = 0, nominal_timeout = 0, recommended_timeout = 0,
      enabled = None, update_usage_bits = Some Set_dpofua_usage_bits,
      usage_bits =
      [WRITE_VERIFY_16, 0xf0, 0xff, 0xff, 0xff, 0xff, 0xff, 0xff, 0xff, 0xff,
       0xff, 0xff, 0xff, 0xff, SCSI_GROUP_NUMBER_MASK, SCSI_CONTROL_MASK] \<rparr>"

definition tcm_opcode_write_same32 :: target_opcode_descriptor where
  [opcode_descr]: "tcm_opcode_write_same32 =
    \<lparr> support = SCSI_SUPPORT_FULL, serv_action_valid = True, opcode = VARIABLE_LENGTH_CMD,
      service_action = ucast WRITE_SAME_32, cdb_size = 32,
      specific_timeout = 0, nominal_timeout = 0, recommended_timeout = 0,
      enabled = Some Tcm_is_ws_enabled, update_usage_bits = Some Set_dpofua_usage_bits32,
      usage_bits =
      [VARIABLE_LENGTH_CMD, SCSI_CONTROL_MASK, 0x00, 0x00, 0x00, 0x00,
       SCSI_GROUP_NUMBER_MASK, 0x18, 0x00, WRITE_SAME_32, 0xe8, 0x00, 0xff,
       0xff, 0xff, 0xff, 0xff, 0xff, 0xff, 0xff, 0x00, 0x00, 0x00, 0x00, 0x00,
       0x00, 0x00, 0x00, 0xff, 0xff, 0xff, 0xff] \<rparr>"

definition tcm_opcode_compare_write :: target_opcode_descriptor where
  [opcode_descr]: "tcm_opcode_compare_write =
    \<lparr> support = SCSI_SUPPORT_FULL, serv_action_valid = False, opcode = COMPARE_AND_WRITE,
      service_action = 0, cdb_size = 16,
      specific_timeout = 0, nominal_timeout = 0, recommended_timeout = 0,
      enabled = Some Tcm_is_caw_enabled, update_usage_bits = Some Set_dpofua_usage_bits,
      usage_bits =
      [COMPARE_AND_WRITE, 0x18, 0xff, 0xff, 0xff, 0xff, 0xff, 0xff, 0xff,
       0xff, 0x00, 0x00, 0x00, 0xff, SCSI_GROUP_NUMBER_MASK, SCSI_CONTROL_MASK] \<rparr>"

definition tcm_opcode_read_capacity :: target_opcode_descriptor where
  [opcode_descr]: "tcm_opcode_read_capacity =
    \<lparr> support = SCSI_SUPPORT_FULL, serv_action_valid = False, opcode = READ_CAPACITY,
      service_action = 0, cdb_size = 10,
      specific_timeout = 0, nominal_timeout = 0, recommended_timeout = 0,
      enabled = None, update_usage_bits = None,
      usage_bits =
      [READ_CAPACITY, 0x00, 0xff, 0xff, 0xff, 0xff, 0x00, 0x00, 0x01,
       SCSI_CONTROL_MASK] \<rparr>"

definition tcm_opcode_read_capacity16 :: target_opcode_descriptor where
  [opcode_descr]: "tcm_opcode_read_capacity16 =
    \<lparr> support = SCSI_SUPPORT_FULL, serv_action_valid = True, opcode = SERVICE_ACTION_IN_16,
      service_action = ucast SAI_READ_CAPACITY_16, cdb_size = 16,
      specific_timeout = 0, nominal_timeout = 0, recommended_timeout = 0,
      enabled = None, update_usage_bits = None,
      usage_bits =
      [SERVICE_ACTION_IN_16, SAI_READ_CAPACITY_16, 0x00, 0x00, 0x00, 0x00,
       0x00, 0x00, 0x00, 0x00, 0xff, 0xff, 0xff, 0xff, 0x00, SCSI_CONTROL_MASK] \<rparr>"

definition tcm_opcode_read_report_refferals :: target_opcode_descriptor where
  [opcode_descr]: "tcm_opcode_read_report_refferals =
    \<lparr> support = SCSI_SUPPORT_FULL, serv_action_valid = True, opcode = SERVICE_ACTION_IN_16,
      service_action = ucast SAI_REPORT_REFERRALS, cdb_size = 16,
      specific_timeout = 0, nominal_timeout = 0, recommended_timeout = 0,
      enabled = Some Tcm_is_rep_ref_enabled, update_usage_bits = None,
      usage_bits =
      [SERVICE_ACTION_IN_16, SAI_REPORT_REFERRALS, 0x00, 0x00, 0x00, 0x00,
       0x00, 0x00, 0x00, 0x00, 0xff, 0xff, 0xff, 0xff, 0x00, SCSI_CONTROL_MASK] \<rparr>"

definition tcm_opcode_sync_cache :: target_opcode_descriptor where
  [opcode_descr]: "tcm_opcode_sync_cache =
    \<lparr> support = SCSI_SUPPORT_FULL, serv_action_valid = False, opcode = SYNCHRONIZE_CACHE,
      service_action = 0, cdb_size = 10,
      specific_timeout = 0, nominal_timeout = 0, recommended_timeout = 0,
      enabled = None, update_usage_bits = None,
      usage_bits =
      [SYNCHRONIZE_CACHE, 0x02, 0xff, 0xff, 0xff, 0xff,
       SCSI_GROUP_NUMBER_MASK, 0xff, 0xff, SCSI_CONTROL_MASK] \<rparr>"

definition tcm_opcode_sync_cache16 :: target_opcode_descriptor where
  [opcode_descr]: "tcm_opcode_sync_cache16 =
    \<lparr> support = SCSI_SUPPORT_FULL, serv_action_valid = False, opcode = SYNCHRONIZE_CACHE_16,
      service_action = 0, cdb_size = 16,
      specific_timeout = 0, nominal_timeout = 0, recommended_timeout = 0,
      enabled = None, update_usage_bits = None,
      usage_bits =
      [SYNCHRONIZE_CACHE_16, 0x02, 0xff, 0xff, 0xff, 0xff, 0xff, 0xff, 0xff,
       0xff, 0xff, 0xff, 0xff, 0xff, SCSI_GROUP_NUMBER_MASK, SCSI_CONTROL_MASK] \<rparr>"

definition tcm_opcode_unmap :: target_opcode_descriptor where
  [opcode_descr]: "tcm_opcode_unmap =
    \<lparr> support = SCSI_SUPPORT_FULL, serv_action_valid = False, opcode = UNMAP,
      service_action = 0, cdb_size = 10,
      specific_timeout = 0, nominal_timeout = 0, recommended_timeout = 0,
      enabled = Some Tcm_is_unmap_enabled, update_usage_bits = None,
      usage_bits =
      [UNMAP, 0x00, 0x00, 0x00, 0x00, 0x00, SCSI_GROUP_NUMBER_MASK, 0xff,
       0xff, SCSI_CONTROL_MASK] \<rparr>"

definition tcm_opcode_write_same :: target_opcode_descriptor where
  [opcode_descr]: "tcm_opcode_write_same =
    \<lparr> support = SCSI_SUPPORT_FULL, serv_action_valid = False, opcode = WRITE_SAME,
      service_action = 0, cdb_size = 10,
      specific_timeout = 0, nominal_timeout = 0, recommended_timeout = 0,
      enabled = Some Tcm_is_ws_enabled, update_usage_bits = None,
      usage_bits =
      [WRITE_SAME, 0xe8, 0xff, 0xff, 0xff, 0xff, SCSI_GROUP_NUMBER_MASK, 0xff,
       0xff, SCSI_CONTROL_MASK] \<rparr>"

definition tcm_opcode_write_same16 :: target_opcode_descriptor where
  [opcode_descr]: "tcm_opcode_write_same16 =
    \<lparr> support = SCSI_SUPPORT_FULL, serv_action_valid = False, opcode = WRITE_SAME_16,
      service_action = 0, cdb_size = 16,
      specific_timeout = 0, nominal_timeout = 0, recommended_timeout = 0,
      enabled = Some Tcm_is_ws_enabled, update_usage_bits = None,
      usage_bits =
      [WRITE_SAME_16, 0xe8, 0xff, 0xff, 0xff, 0xff, 0xff, 0xff, 0xff, 0xff,
       0xff, 0xff, 0xff, 0xff, SCSI_GROUP_NUMBER_MASK, SCSI_CONTROL_MASK] \<rparr>"

definition tcm_opcode_verify :: target_opcode_descriptor where
  [opcode_descr]: "tcm_opcode_verify =
    \<lparr> support = SCSI_SUPPORT_FULL, serv_action_valid = False, opcode = VERIFY,
      service_action = 0, cdb_size = 10,
      specific_timeout = 0, nominal_timeout = 0, recommended_timeout = 0,
      enabled = None, update_usage_bits = None,
      usage_bits =
      [VERIFY, 0x00, 0xff, 0xff, 0xff, 0xff, SCSI_GROUP_NUMBER_MASK, 0xff,
       0xff, SCSI_CONTROL_MASK] \<rparr>"

definition tcm_opcode_verify16 :: target_opcode_descriptor where
  [opcode_descr]: "tcm_opcode_verify16 =
    \<lparr> support = SCSI_SUPPORT_FULL, serv_action_valid = False, opcode = VERIFY_16,
      service_action = 0, cdb_size = 16,
      specific_timeout = 0, nominal_timeout = 0, recommended_timeout = 0,
      enabled = None, update_usage_bits = None,
      usage_bits =
      [VERIFY_16, 0x00, 0xff, 0xff, 0xff, 0xff, 0xff, 0xff, 0xff, 0xff, 0xff,
       0xff, 0xff, 0xff, SCSI_GROUP_NUMBER_MASK, SCSI_CONTROL_MASK] \<rparr>"

definition tcm_opcode_start_stop :: target_opcode_descriptor where
  [opcode_descr]: "tcm_opcode_start_stop =
    \<lparr> support = SCSI_SUPPORT_FULL, serv_action_valid = False, opcode = START_STOP,
      service_action = 0, cdb_size = 6,
      specific_timeout = 0, nominal_timeout = 0, recommended_timeout = 0,
      enabled = None, update_usage_bits = None,
      usage_bits =
      [START_STOP, 0x01, 0x00, 0x00, 0x01, SCSI_CONTROL_MASK] \<rparr>"

definition tcm_opcode_mode_select :: target_opcode_descriptor where
  [opcode_descr]: "tcm_opcode_mode_select =
    \<lparr> support = SCSI_SUPPORT_FULL, serv_action_valid = False, opcode = MODE_SELECT,
      service_action = 0, cdb_size = 6,
      specific_timeout = 0, nominal_timeout = 0, recommended_timeout = 0,
      enabled = None, update_usage_bits = None,
      usage_bits =
      [MODE_SELECT, 0x10, 0x00, 0x00, 0xff, SCSI_CONTROL_MASK] \<rparr>"

definition tcm_opcode_mode_select10 :: target_opcode_descriptor where
  [opcode_descr]: "tcm_opcode_mode_select10 =
    \<lparr> support = SCSI_SUPPORT_FULL, serv_action_valid = False, opcode = MODE_SELECT_10,
      service_action = 0, cdb_size = 10,
      specific_timeout = 0, nominal_timeout = 0, recommended_timeout = 0,
      enabled = None, update_usage_bits = None,
      usage_bits =
      [MODE_SELECT_10, 0x10, 0x00, 0x00, 0x00, 0x00, 0x00, 0xff, 0xff,
       SCSI_CONTROL_MASK] \<rparr>"

definition tcm_opcode_mode_sense :: target_opcode_descriptor where
  [opcode_descr]: "tcm_opcode_mode_sense =
    \<lparr> support = SCSI_SUPPORT_FULL, serv_action_valid = False, opcode = MODE_SENSE,
      service_action = 0, cdb_size = 6,
      specific_timeout = 0, nominal_timeout = 0, recommended_timeout = 0,
      enabled = None, update_usage_bits = None,
      usage_bits =
      [MODE_SENSE, 0x08, 0xff, 0xff, 0xff, SCSI_CONTROL_MASK] \<rparr>"

definition tcm_opcode_mode_sense10 :: target_opcode_descriptor where
  [opcode_descr]: "tcm_opcode_mode_sense10 =
    \<lparr> support = SCSI_SUPPORT_FULL, serv_action_valid = False, opcode = MODE_SENSE_10,
      service_action = 0, cdb_size = 10,
      specific_timeout = 0, nominal_timeout = 0, recommended_timeout = 0,
      enabled = None, update_usage_bits = None,
      usage_bits =
      [MODE_SENSE_10, 0x18, 0xff, 0xff, 0x00, 0x00, 0x00, 0xff, 0xff,
       SCSI_CONTROL_MASK] \<rparr>"

definition tcm_opcode_pri_read_keys :: target_opcode_descriptor where
  [opcode_descr]: "tcm_opcode_pri_read_keys =
    \<lparr> support = SCSI_SUPPORT_FULL, serv_action_valid = True, opcode = PERSISTENT_RESERVE_IN,
      service_action = ucast PRI_READ_KEYS, cdb_size = 10,
      specific_timeout = 0, nominal_timeout = 0, recommended_timeout = 0,
      enabled = None, update_usage_bits = None,
      usage_bits =
      [PERSISTENT_RESERVE_IN, PRI_READ_KEYS, 0x00, 0x00, 0x00, 0x00, 0x00,
       0xff, 0xff, SCSI_CONTROL_MASK] \<rparr>"

definition tcm_opcode_pri_read_resrv :: target_opcode_descriptor where
  [opcode_descr]: "tcm_opcode_pri_read_resrv =
    \<lparr> support = SCSI_SUPPORT_FULL, serv_action_valid = True, opcode = PERSISTENT_RESERVE_IN,
      service_action = ucast PRI_READ_RESERVATION, cdb_size = 10,
      specific_timeout = 0, nominal_timeout = 0, recommended_timeout = 0,
      enabled = None, update_usage_bits = None,
      usage_bits =
      [PERSISTENT_RESERVE_IN, PRI_READ_RESERVATION, 0x00, 0x00, 0x00, 0x00,
       0x00, 0xff, 0xff, SCSI_CONTROL_MASK] \<rparr>"

definition tcm_opcode_pri_read_caps :: target_opcode_descriptor where
  [opcode_descr]: "tcm_opcode_pri_read_caps =
    \<lparr> support = SCSI_SUPPORT_FULL, serv_action_valid = True, opcode = PERSISTENT_RESERVE_IN,
      service_action = ucast PRI_REPORT_CAPABILITIES, cdb_size = 10,
      specific_timeout = 0, nominal_timeout = 0, recommended_timeout = 0,
      enabled = Some Tcm_is_pr_enabled, update_usage_bits = None,
      usage_bits =
      [PERSISTENT_RESERVE_IN, PRI_REPORT_CAPABILITIES, 0x00, 0x00, 0x00, 0x00,
       0x00, 0xff, 0xff, SCSI_CONTROL_MASK] \<rparr>"

definition tcm_opcode_pri_read_full_status :: target_opcode_descriptor where
  [opcode_descr]: "tcm_opcode_pri_read_full_status =
    \<lparr> support = SCSI_SUPPORT_FULL, serv_action_valid = True, opcode = PERSISTENT_RESERVE_IN,
      service_action = ucast PRI_READ_FULL_STATUS, cdb_size = 10,
      specific_timeout = 0, nominal_timeout = 0, recommended_timeout = 0,
      enabled = Some Tcm_is_pr_enabled, update_usage_bits = None,
      usage_bits =
      [PERSISTENT_RESERVE_IN, PRI_READ_FULL_STATUS, 0x00, 0x00, 0x00, 0x00,
       0x00, 0xff, 0xff, SCSI_CONTROL_MASK] \<rparr>"

definition tcm_opcode_pro_register :: target_opcode_descriptor where
  [opcode_descr]: "tcm_opcode_pro_register =
    \<lparr> support = SCSI_SUPPORT_FULL, serv_action_valid = True, opcode = PERSISTENT_RESERVE_OUT,
      service_action = ucast PRO_REGISTER, cdb_size = 10,
      specific_timeout = 0, nominal_timeout = 0, recommended_timeout = 0,
      enabled = Some Tcm_is_pr_enabled, update_usage_bits = None,
      usage_bits =
      [PERSISTENT_RESERVE_OUT, PRO_REGISTER, 0xff, 0x00, 0x00, 0xff, 0xff,
       0xff, 0xff, SCSI_CONTROL_MASK] \<rparr>"

definition tcm_opcode_pro_reserve :: target_opcode_descriptor where
  [opcode_descr]: "tcm_opcode_pro_reserve =
    \<lparr> support = SCSI_SUPPORT_FULL, serv_action_valid = True, opcode = PERSISTENT_RESERVE_OUT,
      service_action = ucast PRO_RESERVE, cdb_size = 10,
      specific_timeout = 0, nominal_timeout = 0, recommended_timeout = 0,
      enabled = Some Tcm_is_pr_enabled, update_usage_bits = None,
      usage_bits =
      [PERSISTENT_RESERVE_OUT, PRO_RESERVE, 0xff, 0x00, 0x00, 0xff, 0xff,
       0xff, 0xff, SCSI_CONTROL_MASK] \<rparr>"

definition tcm_opcode_pro_release :: target_opcode_descriptor where
  [opcode_descr]: "tcm_opcode_pro_release =
    \<lparr> support = SCSI_SUPPORT_FULL, serv_action_valid = True, opcode = PERSISTENT_RESERVE_OUT,
      service_action = ucast PRO_RELEASE, cdb_size = 10,
      specific_timeout = 0, nominal_timeout = 0, recommended_timeout = 0,
      enabled = Some Tcm_is_pr_enabled, update_usage_bits = None,
      usage_bits =
      [PERSISTENT_RESERVE_OUT, PRO_RELEASE, 0xff, 0x00, 0x00, 0xff, 0xff,
       0xff, 0xff, SCSI_CONTROL_MASK] \<rparr>"

definition tcm_opcode_pro_clear :: target_opcode_descriptor where
  [opcode_descr]: "tcm_opcode_pro_clear =
    \<lparr> support = SCSI_SUPPORT_FULL, serv_action_valid = True, opcode = PERSISTENT_RESERVE_OUT,
      service_action = ucast PRO_CLEAR, cdb_size = 10,
      specific_timeout = 0, nominal_timeout = 0, recommended_timeout = 0,
      enabled = Some Tcm_is_pr_enabled, update_usage_bits = None,
      usage_bits =
      [PERSISTENT_RESERVE_OUT, PRO_CLEAR, 0xff, 0x00, 0x00, 0xff, 0xff, 0xff,
       0xff, SCSI_CONTROL_MASK] \<rparr>"

definition tcm_opcode_pro_preempt :: target_opcode_descriptor where
  [opcode_descr]: "tcm_opcode_pro_preempt =
    \<lparr> support = SCSI_SUPPORT_FULL, serv_action_valid = True, opcode = PERSISTENT_RESERVE_OUT,
      service_action = ucast PRO_PREEMPT, cdb_size = 10,
      specific_timeout = 0, nominal_timeout = 0, recommended_timeout = 0,
      enabled = Some Tcm_is_pr_enabled, update_usage_bits = None,
      usage_bits =
      [PERSISTENT_RESERVE_OUT, PRO_PREEMPT, 0xff, 0x00, 0x00, 0xff, 0xff,
       0xff, 0xff, SCSI_CONTROL_MASK] \<rparr>"

definition tcm_opcode_pro_preempt_abort :: target_opcode_descriptor where
  [opcode_descr]: "tcm_opcode_pro_preempt_abort =
    \<lparr> support = SCSI_SUPPORT_FULL, serv_action_valid = True, opcode = PERSISTENT_RESERVE_OUT,
      service_action = ucast PRO_PREEMPT_AND_ABORT, cdb_size = 10,
      specific_timeout = 0, nominal_timeout = 0, recommended_timeout = 0,
      enabled = Some Tcm_is_pr_enabled, update_usage_bits = None,
      usage_bits =
      [PERSISTENT_RESERVE_OUT, PRO_PREEMPT_AND_ABORT, 0xff, 0x00, 0x00, 0xff,
       0xff, 0xff, 0xff, SCSI_CONTROL_MASK] \<rparr>"

definition tcm_opcode_pro_reg_ign_exist :: target_opcode_descriptor where
  [opcode_descr]: "tcm_opcode_pro_reg_ign_exist =
    \<lparr> support = SCSI_SUPPORT_FULL, serv_action_valid = True, opcode = PERSISTENT_RESERVE_OUT,
      service_action = ucast PRO_REGISTER_AND_IGNORE_EXISTING_KEY, cdb_size = 10,
      specific_timeout = 0, nominal_timeout = 0, recommended_timeout = 0,
      enabled = Some Tcm_is_pr_enabled, update_usage_bits = None,
      usage_bits =
      [PERSISTENT_RESERVE_OUT, PRO_REGISTER_AND_IGNORE_EXISTING_KEY, 0xff,
       0x00, 0x00, 0xff, 0xff, 0xff, 0xff, SCSI_CONTROL_MASK] \<rparr>"

definition tcm_opcode_pro_register_move :: target_opcode_descriptor where
  [opcode_descr]: "tcm_opcode_pro_register_move =
    \<lparr> support = SCSI_SUPPORT_FULL, serv_action_valid = True, opcode = PERSISTENT_RESERVE_OUT,
      service_action = ucast PRO_REGISTER_AND_MOVE, cdb_size = 10,
      specific_timeout = 0, nominal_timeout = 0, recommended_timeout = 0,
      enabled = Some Tcm_is_pr_enabled, update_usage_bits = None,
      usage_bits =
      [PERSISTENT_RESERVE_OUT, PRO_REGISTER_AND_MOVE, 0xff, 0x00, 0x00, 0xff,
       0xff, 0xff, 0xff, SCSI_CONTROL_MASK] \<rparr>"

definition tcm_opcode_release :: target_opcode_descriptor where
  [opcode_descr]: "tcm_opcode_release =
    \<lparr> support = SCSI_SUPPORT_FULL, serv_action_valid = False, opcode = RELEASE,
      service_action = 0, cdb_size = 6,
      specific_timeout = 0, nominal_timeout = 0, recommended_timeout = 0,
      enabled = Some Tcm_is_pr_enabled, update_usage_bits = None,
      usage_bits =
      [RELEASE, 0x00, 0x00, 0x00, 0x00, SCSI_CONTROL_MASK] \<rparr>"

definition tcm_opcode_release10 :: target_opcode_descriptor where
  [opcode_descr]: "tcm_opcode_release10 =
    \<lparr> support = SCSI_SUPPORT_FULL, serv_action_valid = False, opcode = RELEASE_10,
      service_action = 0, cdb_size = 10,
      specific_timeout = 0, nominal_timeout = 0, recommended_timeout = 0,
      enabled = Some Tcm_is_pr_enabled, update_usage_bits = None,
      usage_bits =
      [RELEASE_10, 0x00, 0x00, 0x00, 0x00, 0x00, 0x00, 0xff, 0xff,
       SCSI_CONTROL_MASK] \<rparr>"

definition tcm_opcode_reserve :: target_opcode_descriptor where
  [opcode_descr]: "tcm_opcode_reserve =
    \<lparr> support = SCSI_SUPPORT_FULL, serv_action_valid = False, opcode = RESERVE,
      service_action = 0, cdb_size = 6,
      specific_timeout = 0, nominal_timeout = 0, recommended_timeout = 0,
      enabled = Some Tcm_is_pr_enabled, update_usage_bits = None,
      usage_bits =
      [RESERVE, 0x00, 0x00, 0x00, 0x00, SCSI_CONTROL_MASK] \<rparr>"

definition tcm_opcode_reserve10 :: target_opcode_descriptor where
  [opcode_descr]: "tcm_opcode_reserve10 =
    \<lparr> support = SCSI_SUPPORT_FULL, serv_action_valid = False, opcode = RESERVE_10,
      service_action = 0, cdb_size = 10,
      specific_timeout = 0, nominal_timeout = 0, recommended_timeout = 0,
      enabled = Some Tcm_is_pr_enabled, update_usage_bits = None,
      usage_bits =
      [RESERVE_10, 0x00, 0x00, 0x00, 0x00, 0x00, 0x00, 0xff, 0xff,
       SCSI_CONTROL_MASK] \<rparr>"

definition tcm_opcode_request_sense :: target_opcode_descriptor where
  [opcode_descr]: "tcm_opcode_request_sense =
    \<lparr> support = SCSI_SUPPORT_FULL, serv_action_valid = False, opcode = REQUEST_SENSE,
      service_action = 0, cdb_size = 6,
      specific_timeout = 0, nominal_timeout = 0, recommended_timeout = 0,
      enabled = None, update_usage_bits = None,
      usage_bits =
      [REQUEST_SENSE, 0x00, 0x00, 0x00, 0xff, SCSI_CONTROL_MASK] \<rparr>"

definition tcm_opcode_inquiry :: target_opcode_descriptor where
  [opcode_descr]: "tcm_opcode_inquiry =
    \<lparr> support = SCSI_SUPPORT_FULL, serv_action_valid = False, opcode = INQUIRY,
      service_action = 0, cdb_size = 6,
      specific_timeout = 0, nominal_timeout = 0, recommended_timeout = 0,
      enabled = None, update_usage_bits = None,
      usage_bits =
      [INQUIRY, 0x01, 0xff, 0xff, 0xff, SCSI_CONTROL_MASK] \<rparr>"

definition tcm_opcode_extended_copy_lid1 :: target_opcode_descriptor where
  [opcode_descr]: "tcm_opcode_extended_copy_lid1 =
    \<lparr> support = SCSI_SUPPORT_FULL, serv_action_valid = True, opcode = EXTENDED_COPY,
      service_action = 0, cdb_size = 16,
      specific_timeout = 0, nominal_timeout = 0, recommended_timeout = 0,
      enabled = Some Tcm_is_3pc_enabled, update_usage_bits = None,
      usage_bits =
      [EXTENDED_COPY, 0x00, 0x00, 0x00, 0x00, 0x00, 0x00, 0x00, 0x00, 0x00,
       0xff, 0xff, 0xff, 0xff, 0x00, SCSI_CONTROL_MASK] \<rparr>"

definition tcm_opcode_rcv_copy_res_op_params :: target_opcode_descriptor where
  [opcode_descr]: "tcm_opcode_rcv_copy_res_op_params =
    \<lparr> support = SCSI_SUPPORT_FULL, serv_action_valid = True, opcode = RECEIVE_COPY_RESULTS,
      service_action = ucast RCR_SA_OPERATING_PARAMETERS, cdb_size = 16,
      specific_timeout = 0, nominal_timeout = 0, recommended_timeout = 0,
      enabled = Some Tcm_is_3pc_enabled, update_usage_bits = None,
      usage_bits =
      [RECEIVE_COPY_RESULTS, RCR_SA_OPERATING_PARAMETERS, 0x00, 0x00, 0x00,
       0x00, 0x00, 0x00, 0x00, 0x00, 0xff, 0xff, 0xff, 0xff, 0x00,
       SCSI_CONTROL_MASK] \<rparr>"

definition tcm_opcode_report_luns :: target_opcode_descriptor where
  [opcode_descr]: "tcm_opcode_report_luns =
    \<lparr> support = SCSI_SUPPORT_FULL, serv_action_valid = False, opcode = REPORT_LUNS,
      service_action = 0, cdb_size = 12,
      specific_timeout = 0, nominal_timeout = 0, recommended_timeout = 0,
      enabled = None, update_usage_bits = None,
      usage_bits =
      [REPORT_LUNS, 0x00, 0xff, 0x00, 0x00, 0x00, 0xff, 0xff, 0xff, 0xff,
       0x00, SCSI_CONTROL_MASK] \<rparr>"

definition tcm_opcode_test_unit_ready :: target_opcode_descriptor where
  [opcode_descr]: "tcm_opcode_test_unit_ready =
    \<lparr> support = SCSI_SUPPORT_FULL, serv_action_valid = False, opcode = TEST_UNIT_READY,
      service_action = 0, cdb_size = 6,
      specific_timeout = 0, nominal_timeout = 0, recommended_timeout = 0,
      enabled = None, update_usage_bits = None,
      usage_bits =
      [TEST_UNIT_READY, 0x00, 0x00, 0x00, 0x00, SCSI_CONTROL_MASK] \<rparr>"

definition tcm_opcode_report_target_pgs :: target_opcode_descriptor where
  [opcode_descr]: "tcm_opcode_report_target_pgs =
    \<lparr> support = SCSI_SUPPORT_FULL, serv_action_valid = True, opcode = MAINTENANCE_IN,
      service_action = ucast MI_REPORT_TARGET_PGS, cdb_size = 12,
      specific_timeout = 0, nominal_timeout = 0, recommended_timeout = 0,
      enabled = None, update_usage_bits = None,
      usage_bits =
      [MAINTENANCE_IN, (0xe0 OR MI_REPORT_TARGET_PGS), 0x00, 0x00, 0x00, 0x00,
       0xff, 0xff, 0xff, 0xff, 0x00, SCSI_CONTROL_MASK] \<rparr>"

definition tcm_opcode_report_supp_opcodes :: target_opcode_descriptor where
  [opcode_descr]: "tcm_opcode_report_supp_opcodes =
    \<lparr> support = SCSI_SUPPORT_FULL, serv_action_valid = True, opcode = MAINTENANCE_IN,
      service_action = ucast MI_REPORT_SUPPORTED_OPERATION_CODES, cdb_size = 12,
      specific_timeout = 0, nominal_timeout = 0, recommended_timeout = 0,
      enabled = Some Spc_rsoc_enabled, update_usage_bits = None,
      usage_bits =
      [MAINTENANCE_IN, MI_REPORT_SUPPORTED_OPERATION_CODES, 0x87, 0xff, 0xff,
       0xff, 0xff, 0xff, 0xff, 0xff, 0x00, SCSI_CONTROL_MASK] \<rparr>"

definition tcm_opcode_set_tpg :: target_opcode_descriptor where
  [opcode_descr]: "tcm_opcode_set_tpg =
    \<lparr> support = SCSI_SUPPORT_FULL, serv_action_valid = True, opcode = MAINTENANCE_OUT,
      service_action = ucast MO_SET_TARGET_PGS, cdb_size = 12,
      specific_timeout = 0, nominal_timeout = 0, recommended_timeout = 0,
      enabled = Some Tcm_is_set_tpg_enabled, update_usage_bits = None,
      usage_bits =
      [MAINTENANCE_OUT, MO_SET_TARGET_PGS, 0x00, 0x00, 0x00, 0x00, 0xff, 0xff,
       0xff, 0xff, 0x00, SCSI_CONTROL_MASK] \<rparr>"

definition tcm_supported_opcodes :: "target_opcode_descriptor list" where
  "tcm_supported_opcodes =
    [tcm_opcode_read6, tcm_opcode_read10, tcm_opcode_read12, tcm_opcode_read16,
     tcm_opcode_write6, tcm_opcode_write10, tcm_opcode_write_verify10,
     tcm_opcode_write12, tcm_opcode_write16, tcm_opcode_write_verify16,
     tcm_opcode_write_same32, tcm_opcode_compare_write, tcm_opcode_read_capacity,
     tcm_opcode_read_capacity16, tcm_opcode_read_report_refferals,
     tcm_opcode_sync_cache, tcm_opcode_sync_cache16, tcm_opcode_unmap,
     tcm_opcode_write_same, tcm_opcode_write_same16, tcm_opcode_verify,
     tcm_opcode_verify16, tcm_opcode_start_stop, tcm_opcode_mode_select,
     tcm_opcode_mode_select10, tcm_opcode_mode_sense, tcm_opcode_mode_sense10,
     tcm_opcode_pri_read_keys, tcm_opcode_pri_read_resrv, tcm_opcode_pri_read_caps,
     tcm_opcode_pri_read_full_status, tcm_opcode_pro_register,
     tcm_opcode_pro_reserve, tcm_opcode_pro_release, tcm_opcode_pro_clear,
     tcm_opcode_pro_preempt, tcm_opcode_pro_preempt_abort,
     tcm_opcode_pro_reg_ign_exist, tcm_opcode_pro_register_move, tcm_opcode_release,
     tcm_opcode_release10, tcm_opcode_reserve, tcm_opcode_reserve10,
     tcm_opcode_request_sense, tcm_opcode_inquiry, tcm_opcode_extended_copy_lid1,
     tcm_opcode_rcv_copy_res_op_params, tcm_opcode_report_luns,
     tcm_opcode_test_unit_ready, tcm_opcode_report_target_pgs,
     tcm_opcode_report_supp_opcodes, tcm_opcode_set_tpg]"

subsection \<open>REPORT SUPPORTED OPERATION CODES\<close>

text \<open>
  The encoders write at \<open>off\<close> into the response buffer and return it with
  the number of bytes encoded.
\<close>

definition spc_rsoc_encode_command_timeouts_descriptor ::
    "u8 list \<Rightarrow> nat \<Rightarrow> u8 \<Rightarrow> target_opcode_descriptor \<Rightarrow> u8 list \<times> nat" where
  "spc_rsoc_encode_command_timeouts_descriptor buf off ctdp descr =
    (if ctdp = 0 then (buf, 0)
     else let b = put_unaligned_be16 0xa buf off;
              b = b[off + 3 := specific_timeout descr];
              b = put_unaligned_be32 (ucast (nominal_timeout descr)) b (off + 4);
              b = put_unaligned_be32 (ucast (recommended_timeout descr)) b (off + 8)
          in (b, 12))"

definition spc_rsoc_encode_command_descriptor ::
    "u8 list \<Rightarrow> nat \<Rightarrow> u8 \<Rightarrow> target_opcode_descriptor \<Rightarrow> u8 list \<times> nat" where
  "spc_rsoc_encode_command_descriptor buf off ctdp descr =
    (let b = buf[off := opcode descr];
         b = put_unaligned_be16 (service_action descr) b (off + 2);
         b = b[off + 5 := push_bit 1 ctdp OR (if serv_action_valid descr then 1 else 0)];
         b = put_unaligned_be16 (word_of_nat (cdb_size descr)) b (off + 6);
         (b, td_size) = spc_rsoc_encode_command_timeouts_descriptor b (off + 8) ctdp descr
     in (b, 8 + td_size))"

definition spc_rsoc_encode_one_command_descriptor ::
    "u8 list \<Rightarrow> nat \<Rightarrow> u8 \<Rightarrow> target_opcode_descriptor option \<Rightarrow> se_device \<Rightarrow> u8 list \<times> nat" where
  "spc_rsoc_encode_one_command_descriptor buf off ctdp descr dev =
    (case descr of
       None \<Rightarrow> (buf[off + 1 := push_bit 7 ctdp OR SCSI_SUPPORT_NOT_SUPPORTED], 2)
     | Some d \<Rightarrow>
         (let b = buf[off + 1 := push_bit 7 ctdp OR SCSI_SUPPORT_FULL];
              b = put_unaligned_be16 (word_of_nat (cdb_size d)) b (off + 2);
              b = memcpy b (off + 4) (take (cdb_size d) (usage_bits d));
              b = descr_update_usage_bits d b (off + 4) dev;
              (b, td_size) =
                 spc_rsoc_encode_command_timeouts_descriptor b (off + 4 + cdb_size d) ctdp d
          in (b, 4 + cdb_size d + td_size)))"

text \<open>
  The loop of \<open>spc_rsoc_get_descr\<close> over the table, for the reporting
  options \<open>opts\<close>: a descriptor of another opcode is passed over; one that
  the \<open>switch\<close> leaves by \<open>break\<close> is passed over too.
\<close>

fun rsoc_search ::
    "target_opcode_descriptor list \<Rightarrow> se_cmd \<Rightarrow> u8 \<Rightarrow> u8 \<Rightarrow> u16
       \<Rightarrow> sense_reason + target_opcode_descriptor option" where
  "rsoc_search [] cmd opts requested_opcode requested_sa = Inr None"
| "rsoc_search (descr # rest) cmd opts requested_opcode requested_sa =
    (if opcode descr \<noteq> requested_opcode
     then rsoc_search rest cmd opts requested_opcode requested_sa
     else if opts = 0x1 then
       (if serv_action_valid descr then Inl TCM_INVALID_CDB_FIELD
        else if descr_enabled descr cmd then Inr (Some descr)
        else rsoc_search rest cmd opts requested_opcode requested_sa)
     else if opts = 0x2 then
       (if serv_action_valid descr \<and> service_action descr = requested_sa then
          (if descr_enabled descr cmd then Inr (Some descr)
           else rsoc_search rest cmd opts requested_opcode requested_sa)
        else if \<not> serv_action_valid descr then Inl TCM_INVALID_CDB_FIELD
        else rsoc_search rest cmd opts requested_opcode requested_sa)
     else if opts = 0x3 then
       (if service_action descr = requested_sa \<and> descr_enabled descr cmd then Inr (Some descr)
        else rsoc_search rest cmd opts requested_opcode requested_sa)
     else rsoc_search rest cmd opts requested_opcode requested_sa)"

definition spc_rsoc_get_descr :: "se_cmd \<Rightarrow> sense_reason + target_opcode_descriptor option" where
  "spc_rsoc_get_descr cmd =
    (let cdb = t_task_cdb cmd;
         opts = (cdb ! 2) AND 0x3;
         requested_opcode = cdb ! 3;
         requested_sa = push_bit 8 (ucast (cdb ! 4)) OR ucast (cdb ! 5)
     in if opts > 3 then Inl TCM_INVALID_CDB_FIELD
        else rsoc_search tcm_supported_opcodes cmd opts requested_opcode requested_sa)"

text \<open>The loop of reporting option 0: every enabled descriptor, in table order.\<close>

fun rsoc_encode_all ::
    "target_opcode_descriptor list \<Rightarrow> se_cmd \<Rightarrow> u8 \<Rightarrow> u8 list \<Rightarrow> nat \<Rightarrow> u8 list \<times> nat" where
  "rsoc_encode_all [] cmd rctd buf response_length = (buf, response_length)"
| "rsoc_encode_all (descr # rest) cmd rctd buf response_length =
    (if \<not> descr_enabled descr cmd then rsoc_encode_all rest cmd rctd buf response_length
     else let (b, n) = spc_rsoc_encode_command_descriptor buf response_length rctd descr
          in rsoc_encode_all rest cmd rctd b (response_length + n))"

definition rsoc_out :: "se_cmd \<Rightarrow> u8 list \<Rightarrow> nat \<Rightarrow> sense_reason + completion" where
  "rsoc_out cmd buf response_length =
    Inr \<lparr> scsi_status = SAM_STAT_GOOD, compl_length = Some response_length,
          data_sg = map_option
            (\<lambda>rbuf. memcpy rbuf 0 (take (min response_length (data_length cmd)) buf))
            (kmap_data_sg cmd) \<rparr>"

definition spc_emulate_report_supp_op_codes :: "se_cmd \<Rightarrow> sense_reason + completion" where
  "spc_emulate_report_supp_op_codes cmd =
    (let descr_num = length tcm_supported_opcodes;
         cdb = t_task_cdb cmd;
         rctd = drop_bit 7 (cdb ! 2) AND 0x1;
         opts = (cdb ! 2) AND 0x3
     in if \<not> emulate_rsoc (se_dev cmd) then Inl TCM_UNSUPPORTED_SCSI_OPCODE
        else if data_length cmd \<noteq> 0 \<and> kmap_data_sg cmd = None
        then Inl TCM_LOGICAL_UNIT_COMMUNICATION_FAILURE
        else if opts = 0 then
          (let buf = replicate (4 + (8 + unat rctd * 12) * descr_num) (0 :: u8);
               (b, response_length) = rsoc_encode_all tcm_supported_opcodes cmd rctd buf 4;
               b = put_unaligned_be32 (word_of_nat (response_length - 4)) b 0
           in rsoc_out cmd b response_length)
        else
          (case spc_rsoc_get_descr cmd of
             Inl ret \<Rightarrow> Inl ret
           | Inr descr \<Rightarrow>
               (let buf = replicate
                      (case descr of Some d \<Rightarrow> 4 + cdb_size d + unat rctd * 12 | None \<Rightarrow> 2)
                      (0 :: u8);
                    (b, response_length) =
                       spc_rsoc_encode_one_command_descriptor buf 0 rctd descr (se_dev cmd)
                in rsoc_out cmd b response_length)))"

subsection \<open>Reference layouts\<close>

text \<open>
  An INQUIRY text field as the standard describes it: the string cut to the
  field width, the rest of the field filled with ASCII spaces.
\<close>

definition inquiry_field :: "nat \<Rightarrow> u8 list \<Rightarrow> u8 list" where
  "inquiry_field w s = take w (cstr s) @ replicate (w - length (cstr s)) 0x20"

text \<open>
  The mode parameter header as \<open>spc_emulate_modesense\<close> builds it before
  any block descriptor: the zeroed buffer with the WP and DPOFUA bits in the
  device-specific parameter, byte 3 of the ten-byte form and byte 2 of the
  six-byte form.
\<close>

definition modesense_header :: "se_cmd \<Rightarrow> bool \<Rightarrow> u8 list" where
  "modesense_header cmd ten =
    (let k = (if ten then 3 else 2);
         buf = replicate SE_MODE_PAGE_BUF (0 :: u8);
         buf = (if lun_access_ro (se_lun cmd) \<or> lun_is_rdonly (se_lun cmd)
                then spc_modesense_write_protect buf k (device_type (se_dev cmd)) else buf)
     in if check_fua (se_dev cmd)
        then spc_modesense_dpofua buf k (device_type (se_dev cmd)) else buf)"



text \<open>
  A command descriptor of the all-commands format: operation code, reserved
  byte, service action, reserved byte, the CTDP and SERVACTV bits, the CDB
  length, and the 12-byte command timeouts descriptor when one is asked for.
\<close>

definition rsoc_command_descriptor :: "u8 \<Rightarrow> target_opcode_descriptor \<Rightarrow> u8 list" where
  "rsoc_command_descriptor rctd d =
    [opcode d, 0] @ be16 (service_action d)
      @ [0, push_bit 1 rctd OR (if serv_action_valid d then 1 else 0)]
      @ be16 (word_of_nat (cdb_size d))
      @ (if rctd = 0 then []
         else be16 0xa @ [0, specific_timeout d] @ be32 (ucast (nominal_timeout d))
                @ be32 (ucast (recommended_timeout d)))"

text \<open>The invariant of the designator blocks of VPD page 0x83.\<close>

definition evpd_83_inv :: "nat \<Rightarrow> nat \<Rightarrow> evpd_83_state \<Rightarrow> bool" where
  "evpd_83_inv L B st \<longleftrightarrow>
     (case st of (b, len, off) \<Rightarrow> length b = L \<and> off = len + 4 \<and> len \<le> B)"

subsection \<open>A sample device and command\<close>

definition example_dev :: se_device where
  "example_dev = \<lparr> device_type = TYPE_DISK, df_emulated_vpd_unit_serial = True,
     passthrough_pgr = False, export_count = 1,
     vendor = [0x4c, 0x49, 0x4f, 0x2d, 0x4f, 0x52, 0x47, 0, 0],
     model = [0x64, 0x69, 0x73, 0x6b, 0x30, 0, 0, 0, 0, 0, 0, 0, 0, 0, 0, 0, 0],
     revision = [0x34, 0x2e, 0x30, 0, 0],
     unit_serial = [0x61, 0x31, 0x62, 0x32, 0x2d, 0x63, 0x33, 0],
     company_id = 0x001405,
     emulate_3pc = True, emulate_pr = True, emulate_rsoc = True, emulate_tpu = False,
     emulate_tpws = False, emulate_caw = True, emulate_tas = True,
     emulate_rest_reord = False, emulate_ua_intlck_ctrl = TARGET_UA_INTLCK_CTRL_CLEAR,
     unmap_zeroes_data = False, is_nonrot = False, pi_prot_type = TARGET_DIF_TYPE0_PROT,
     check_wce = False, check_fua = False, sense_desc_format = False,
     blocks = 0x200000, block_size = 512, hw_block_size = 512, hw_max_sectors = 1024,
     optimal_sectors = 1024, max_unmap_lba_count = 0, max_unmap_block_desc_count = 0,
     unmap_granularity = 0, unmap_granularity_alignment = 0, max_write_same_len = 0x1000,
     io_min = None, io_opt = None, lba_map_list_empty = True, lba_map_segment_size = 0,
     lba_map_segment_multiplier = 0, lu_gp_id = Some 0 \<rparr>"

definition example_lun :: se_lun where
  "example_lun = \<lparr> lun_access_ro = False, lun_is_rdonly = False,
     lun_tg_pt_gp = Some (0x10, 0), proto_id = 5, tpg_rtpi = 1, tpg_tag = 1,
     tpg_wwn = [0x69, 0x71, 0x6e, 0x2e, 0x78] \<rparr>"

definition example_sess :: se_session where
  "example_sess = \<lparr> sup_prot_pass = False, sess_prot_type = TARGET_DIF_TYPE0_PROT,
     lun_entry_hlist = [0, 1, 2] \<rparr>"

definition example_cmd :: "u8 list \<Rightarrow> nat \<Rightarrow> u8 list option \<Rightarrow> se_cmd" where
  "example_cmd cdb len data = \<lparr> t_task_cdb = cdb, data_length = len, kmap_data_sg = data,
     se_dev = example_dev, se_lun = example_lun, se_sess = Some example_sess,
     protocol_data = \<lparr> execute_unmap = False, execute_write_same = True \<rparr>,
     max_data_sg_nents = 0, execute_cmd = None, task_attr = TCM_SIMPLE_TAG \<rparr>"

section \<open>Properties\<close>

subsection \<open>Big-endian reads\<close>

lemma ucast_u8_u16: "unat (ucast (a::u8) :: u16) = unat a"
  using unsigned_less[of a, where 'a=nat]
  by (simp add: unsigned_ucast_eq take_bit_nat_eq_self)

lemma ucast_u8_u32: "unat (ucast (a::u8) :: u32) = unat a"
  using unsigned_less[of a, where 'a=nat]
  by (simp add: unsigned_ucast_eq take_bit_nat_eq_self)

lemma ucast_u16_u32: "unat (ucast (a::u16) :: u32) = unat a"
  using unsigned_less[of a, where 'a=nat]
  by (simp add: unsigned_ucast_eq take_bit_nat_eq_self)

lemma get_unaligned_be16_unat:
  "unat (get_unaligned_be16 p off) = 256 * unat (p ! off) + unat (p ! (off + 1))"
proof -
  define a where "a = p ! off"
  define b where "b = p ! (off + 1)"
  have dis: "push_bit 8 (ucast a :: u16) AND ucast b = 0"
    by (auto simp: bit_eq_iff bit_simps dest: bit_imp_le_length)
  have "push_bit 8 (ucast a :: u16) OR ucast b = push_bit 8 (ucast a) + ucast b"
    using dis by (simp add: disjunctive_add_eq_or)
  moreover have "unat (push_bit 8 (ucast a :: u16) + ucast b) = 256 * unat a + unat b"
    using unsigned_less[of a, where 'a=nat] unsigned_less[of b, where 'a=nat]
    by (simp add: unat_word_ariths push_bit_eq_mult ucast_u8_u16)
  ultimately show ?thesis by (simp add: get_unaligned_be16_def a_def b_def)
qed

lemma get_unaligned_be32_unat:
  "unat (get_unaligned_be32 p off) =
     16777216 * unat (p ! off) + 65536 * unat (p ! (off + 1))
       + 256 * unat (p ! (off + 2)) + unat (p ! (off + 3))"
proof -
  define a where "a = p ! off"
  define b where "b = p ! (off + 1)"
  define c where "c = p ! (off + 2)"
  define d where "d = p ! (off + 3)"
  let ?A = "push_bit 24 (ucast a :: u32)"
  let ?B = "push_bit 16 (ucast b :: u32)"
  let ?C = "push_bit 8 (ucast c :: u32)"
  let ?D = "ucast d :: u32"
  have d1: "?C AND ?D = 0"
    by (auto simp: bit_eq_iff bit_simps dest: bit_imp_le_length)
  have d2: "?B AND (?C OR ?D) = 0"
    by (auto simp: bit_eq_iff bit_simps dest: bit_imp_le_length)
  have d3: "?A AND (?B OR (?C OR ?D)) = 0"
    by (auto simp: bit_eq_iff bit_simps dest: bit_imp_le_length)
  have "?A OR (?B OR (?C OR ?D)) = ?A + (?B + (?C + ?D))"
    by (simp only: disjunctive_add_eq_or[OF d1] disjunctive_add_eq_or[OF d2]
      disjunctive_add_eq_or[OF d3])
  then have "?A OR (?B OR (?C OR ?D)) = ?A + ?B + ?C + ?D"
    by (simp add: add.assoc)
  moreover have "unat (?A + ?B + ?C + ?D)
      = 16777216 * unat a + 65536 * unat b + 256 * unat c + unat d"
    using unsigned_less[of a, where 'a=nat] unsigned_less[of b, where 'a=nat]
          unsigned_less[of c, where 'a=nat] unsigned_less[of d, where 'a=nat]
    by (simp add: unat_word_ariths push_bit_eq_mult ucast_u8_u32)
  ultimately show ?thesis by (simp add: get_unaligned_be32_def a_def b_def c_def d_def)
qed

subsection \<open>The dispatcher\<close>

text \<open>
  Claim C3.  For the CDBs the dispatcher accepts, the expected size is the
  length field of the CDB: MODE SENSE(6) and MODE SELECT(6) give CDB byte 4,
  MODE SENSE(10) and MODE SELECT(10) the big-endian 16-bit value of bytes 7
  and 8, and PERSISTENT RESERVE OUT (accepted when persistent reservations are
  emulated) the big-endian 32-bit value of bytes 5 to 8.
\<close>

theorem spc_parse_cdb_expected_size:
  "(t_task_cdb cmd ! 0 = MODE_SENSE \<or> t_task_cdb cmd ! 0 = MODE_SELECT \<longrightarrow>
      (\<exists>c sz. spc_parse_cdb cmd = Inr (c, sz) \<and> unat sz = unat (t_task_cdb cmd ! 4)))
   \<and> (t_task_cdb cmd ! 0 = MODE_SENSE_10 \<or> t_task_cdb cmd ! 0 = MODE_SELECT_10 \<longrightarrow>
      (\<exists>c sz. spc_parse_cdb cmd = Inr (c, sz)
         \<and> unat sz = 256 * unat (t_task_cdb cmd ! 7) + unat (t_task_cdb cmd ! 8)))
   \<and> (t_task_cdb cmd ! 0 = PERSISTENT_RESERVE_OUT \<and> emulate_pr (se_dev cmd) \<longrightarrow>
      (\<exists>c sz. spc_parse_cdb cmd = Inr (c, sz)
         \<and> unat sz = 16777216 * unat (t_task_cdb cmd ! 5) + 65536 * unat (t_task_cdb cmd ! 6)
               + 256 * unat (t_task_cdb cmd ! 7) + unat (t_task_cdb cmd ! 8)))"
  by (auto simp: spc_parse_cdb_def Let_def scsi_proto ucast_u8_u32 ucast_u16_u32
        get_unaligned_be16_unat get_unaligned_be32_unat)

text \<open>
  Claim C9.  With persistent-reservation emulation disabled, RESERVE,
  RESERVE(10), RELEASE, RELEASE(10), PERSISTENT RESERVE IN and PERSISTENT
  RESERVE OUT are all rejected as unsupported operation codes.  With it
  enabled and the passthrough-PGR flag set, the four RESERVE/RELEASE
  opcodes are rejected while PERSISTENT RESERVE IN and OUT are routed to
  their handlers.
\<close>

theorem spc_parse_cdb_reservation_gating:
  "(t_task_cdb cmd ! 0 \<in> {RESERVE, RESERVE_10, RELEASE, RELEASE_10,
        PERSISTENT_RESERVE_IN, PERSISTENT_RESERVE_OUT} \<and> \<not> emulate_pr (se_dev cmd)
      \<longrightarrow> spc_parse_cdb cmd = Inl TCM_UNSUPPORTED_SCSI_OPCODE)
   \<and> (emulate_pr (se_dev cmd) \<and> passthrough_pgr (se_dev cmd) \<longrightarrow>
        (t_task_cdb cmd ! 0 \<in> {RESERVE, RESERVE_10, RELEASE, RELEASE_10}
           \<longrightarrow> spc_parse_cdb cmd = Inl TCM_UNSUPPORTED_SCSI_OPCODE)
      \<and> (t_task_cdb cmd ! 0 = PERSISTENT_RESERVE_IN \<longrightarrow>
           (\<exists>c sz. spc_parse_cdb cmd = Inr (c, sz)
              \<and> execute_cmd c = Some Exec_target_scsi3_emulate_pr_in))
      \<and> (t_task_cdb cmd ! 0 = PERSISTENT_RESERVE_OUT \<longrightarrow>
           (\<exists>c sz. spc_parse_cdb cmd = Inr (c, sz)
              \<and> execute_cmd c = Some Exec_target_scsi3_emulate_pr_out)))"
  by (auto simp: spc_parse_cdb_def Let_def scsi_proto)


theorem spc_parse_cdb_expected_size_witness:
  "(\<exists>c sz. spc_parse_cdb (example_cmd [0x1a, 0, 0x08, 0, 0xff, 0] 255 None) = Inr (c, sz)
       \<and> unat sz = 255)
   \<and> (\<exists>c sz. spc_parse_cdb (example_cmd [0x55, 0x10, 0, 0, 0, 0, 0, 1, 2, 0] 258 None)
         = Inr (c, sz) \<and> unat sz = 258)
   \<and> (\<exists>c sz. spc_parse_cdb (example_cmd [0x5f, 0, 0, 0, 0, 0, 1, 2, 3, 0] 66051 None)
         = Inr (c, sz) \<and> unat sz = 66051)"
  using spc_parse_cdb_expected_size [of "example_cmd [0x1a, 0, 0x08, 0, 0xff, 0] 255 None"]
    spc_parse_cdb_expected_size [of "example_cmd [0x55, 0x10, 0, 0, 0, 0, 0, 1, 2, 0] 258 None"]
    spc_parse_cdb_expected_size [of "example_cmd [0x5f, 0, 0, 0, 0, 0, 1, 2, 3, 0] 66051 None"]
  by (simp add: example_cmd_def example_dev_def scsi_proto)

theorem spc_parse_cdb_reservation_gating_witness:
  "spc_parse_cdb ((example_cmd [0x5e, 0, 0, 0, 0, 0, 0, 0, 8, 0] 8 None)
       \<lparr>se_dev := example_dev\<lparr>emulate_pr := False\<rparr>\<rparr>) = Inl TCM_UNSUPPORTED_SCSI_OPCODE
   \<and> spc_parse_cdb ((example_cmd [0x16, 0, 0, 0, 0, 0] 0 None)
       \<lparr>se_dev := example_dev\<lparr>passthrough_pgr := True\<rparr>\<rparr>) = Inl TCM_UNSUPPORTED_SCSI_OPCODE
   \<and> (\<exists>c sz. spc_parse_cdb ((example_cmd [0x5e, 0, 0, 0, 0, 0, 0, 0, 8, 0] 8 None)
       \<lparr>se_dev := example_dev\<lparr>passthrough_pgr := True\<rparr>\<rparr>) = Inr (c, sz)
         \<and> execute_cmd c = Some Exec_target_scsi3_emulate_pr_in)
   \<and> (\<exists>c sz. spc_parse_cdb ((example_cmd [0x5f, 0, 0, 0, 0, 0, 0, 0, 24, 0] 24 None)
       \<lparr>se_dev := example_dev\<lparr>passthrough_pgr := True\<rparr>\<rparr>) = Inr (c, sz)
         \<and> execute_cmd c = Some Exec_target_scsi3_emulate_pr_out)"
  using spc_parse_cdb_reservation_gating [of "(example_cmd [0x5e, 0, 0, 0, 0, 0, 0, 0, 8, 0] 8 None)
       \<lparr>se_dev := example_dev\<lparr>emulate_pr := False\<rparr>\<rparr>"]
    spc_parse_cdb_reservation_gating [of "(example_cmd [0x16, 0, 0, 0, 0, 0] 0 None)
       \<lparr>se_dev := example_dev\<lparr>passthrough_pgr := True\<rparr>\<rparr>"]
    spc_parse_cdb_reservation_gating [of "(example_cmd [0x5e, 0, 0, 0, 0, 0, 0, 0, 8, 0] 8 None)
       \<lparr>se_dev := example_dev\<lparr>passthrough_pgr := True\<rparr>\<rparr>"]
    spc_parse_cdb_reservation_gating [of "(example_cmd [0x5f, 0, 0, 0, 0, 0, 0, 0, 24, 0] 24 None)
       \<lparr>se_dev := example_dev\<lparr>passthrough_pgr := True\<rparr>\<rparr>"]
  by (simp add: example_cmd_def example_dev_def scsi_proto)

subsection \<open>Buffer operations\<close>

lemma length_memcpy [simp]: "length (memcpy buf off src) = length buf"
  by (induction src arbitrary: buf off) simp_all

lemma nth_memcpy:
  "i < length buf \<Longrightarrow>
     memcpy buf off src ! i = (if off \<le> i \<and> i < off + length src then src ! (i - off) else buf ! i)"
proof (induction src arbitrary: buf off)
  case Nil
  then show ?case by auto
next
  case (Cons b bs)
  show ?case
  proof (cases "i = off")
    case True
    with Cons show ?thesis by simp
  next
    case False
    with Cons show ?thesis by (auto simp: nth_Cons')
  qed
qed

lemma length_memset [simp]: "length (memset buf off v n) = length buf"
  by (simp add: memset_def)

lemma nth_memset:
  "i < length buf \<Longrightarrow>
     memset buf off v n ! i = (if off \<le> i \<and> i < off + n then v else buf ! i)"
  by (auto simp: memset_def nth_memcpy)

lemma length_set_bits [simp]: "length (set_bits buf i v) = length buf"
  by (simp add: set_bits_def)

lemma nth_set_bits:
  "j < length buf \<Longrightarrow> set_bits buf i v ! j = (if j = i then buf ! i OR v else buf ! j)"
  by (simp add: set_bits_def)

lemma length_be16 [simp]: "length (be16 v) = 2"
  by (simp add: be16_def)

lemma length_be32 [simp]: "length (be32 v) = 4"
  by (simp add: be32_def)

lemma length_be64 [simp]: "length (be64 v) = 8"
  by (simp add: be64_def)

lemma length_put_unaligned_be16 [simp]: "length (put_unaligned_be16 v buf off) = length buf"
  by (simp add: put_unaligned_be16_def)

lemma length_put_unaligned_be32 [simp]: "length (put_unaligned_be32 v buf off) = length buf"
  by (simp add: put_unaligned_be32_def)

lemma length_put_unaligned_be64 [simp]: "length (put_unaligned_be64 v buf off) = length buf"
  by (simp add: put_unaligned_be64_def)

lemma nth_put_unaligned_be16:
  "i < length buf \<Longrightarrow> put_unaligned_be16 v buf off ! i =
     (if i = off then ucast (drop_bit 8 v) else if i = off + 1 then ucast v else buf ! i)"
  by (auto simp: put_unaligned_be16_def be16_def)

lemma be16_join: "push_bit 8 (ucast (ucast (drop_bit 8 v) :: u8)) OR ucast (ucast v :: u8) = (v :: u16)"
  by (rule bit_eqI) (auto simp: bit_simps)

lemma get_put_unaligned_be16:
  "off + 1 < length buf \<Longrightarrow> get_unaligned_be16 (put_unaligned_be16 v buf off) off = v"
  by (simp add: get_unaligned_be16_def nth_put_unaligned_be16 be16_join)

lemma length_sprintf [simp]: "length (fst (sprintf buf off s)) = length buf"
  by (simp add: sprintf_def)

lemma snd_sprintf [simp]: "snd (sprintf buf off s) = length s"
  by (simp add: sprintf_def)

lemma length_naa_fill [simp]: "length (naa_fill buf base off cnt nxt p) = length buf"
  by (induction buf base off cnt nxt p rule: naa_fill.induct) (simp_all split: option.splits)

lemma length_spc_gen_naa_6h_vendor_specific [simp]:
  "length (spc_gen_naa_6h_vendor_specific dev buf base) = length buf"
  by (simp add: spc_gen_naa_6h_vendor_specific_def Let_def)

lemma length_designator_head [simp]:
  "length (designator_head buf off proto cs assoc dt) = length buf"
  by (simp add: designator_head_def Let_def)

lemma take_strnlen: "take (strnlen a n) a = take n (cstr a)"
  unfolding strnlen_def cstr_def
  by (induction a arbitrary: n) (auto simp: take_Cons' )

lemma length_cstr_le: "length (cstr a) \<le> length a"
  by (simp add: cstr_def length_takeWhile_le)

lemma scsi_name_pad_le: "scsi_name_pad n \<le> 256"
  by (simp add: scsi_name_pad_def Let_def)

subsection \<open>VPD page 0x83\<close>

lemma evpd_83_naa_inv: "evpd_83_inv (length buf) 20 (evpd_83_naa dev buf)"
  by (simp add: evpd_83_inv_def evpd_83_naa_def Let_def)

lemma evpd_83_t10_vend_desc_inv:
  assumes "evpd_83_inv L B st" "length (model dev) \<le> 17" "length (unit_serial dev) \<le> 254"
    "B \<le> 1000"
  shows "evpd_83_inv L (B + 285) (evpd_83_t10_vend_desc dev st)"
proof -
  obtain b len off where st: "st = (b, len, off)" by (cases st) auto
  have "length (cstr (model dev)) \<le> 17" "length (cstr (unit_serial dev)) \<le> 254"
    using assms(2,3) length_cstr_le[of "model dev"] length_cstr_le[of "unit_serial dev"] by auto
  then show ?thesis
    using assms(1,4)
    by (auto simp: evpd_83_inv_def evpd_83_t10_vend_desc_def st Let_def split_def scsi_proto)
qed

lemma evpd_83_rtpi_inv:
  "evpd_83_inv L B st \<Longrightarrow> B \<le> 2000 \<Longrightarrow> evpd_83_inv L (B + 8) (evpd_83_rtpi lun st)"
  by (cases st) (auto simp: evpd_83_inv_def evpd_83_rtpi_def Let_def)

lemma evpd_83_tg_pt_gp_inv:
  "evpd_83_inv L B st \<Longrightarrow> B \<le> 2000 \<Longrightarrow> evpd_83_inv L (B + 8) (evpd_83_tg_pt_gp lun st)"
  by (cases st) (auto simp: evpd_83_inv_def evpd_83_tg_pt_gp_def Let_def split: option.splits)

lemma evpd_83_lu_gp_inv:
  "evpd_83_inv L B st \<Longrightarrow> B \<le> 2000 \<Longrightarrow> evpd_83_inv L (B + 8) (evpd_83_lu_gp dev st)"
  by (cases st) (auto simp: evpd_83_inv_def evpd_83_lu_gp_def Let_def split: option.splits)

lemma evpd_83_scsi_name_inv:
  "evpd_83_inv L B st \<Longrightarrow> B \<le> 2000 \<Longrightarrow> evpd_83_inv L (B + 260) (evpd_83_scsi_name lun st)"
  using scsi_name_pad_le[of "length (cstr (tpg_wwn lun) @ [0x2c, 0x74, 0x2c, 0x30, 0x78] @ hex04 (tpg_tag lun))"]
  by (cases st) (auto simp: evpd_83_inv_def evpd_83_scsi_name_def Let_def split_def)

lemma evpd_83_target_name_inv:
  "evpd_83_inv L B st \<Longrightarrow> B \<le> 2000 \<Longrightarrow> evpd_83_inv L (B + 260) (evpd_83_target_name lun st)"
  using scsi_name_pad_le[of "length (cstr (tpg_wwn lun))"]
  by (cases st) (auto simp: evpd_83_inv_def evpd_83_target_name_def Let_def split_def)


lemma evpd_83_run_inv:
  assumes "length (model (se_dev cmd)) \<le> 17" "length (unit_serial (se_dev cmd)) \<le> 254"
  shows "\<exists>b len off. evpd_83_target_name (se_lun cmd) (evpd_83_scsi_name (se_lun cmd)
            (evpd_83_lu_gp (se_dev cmd) (evpd_83_tg_pt_gp (se_lun cmd) (evpd_83_rtpi (se_lun cmd)
            (evpd_83_t10_vend_desc (se_dev cmd) (evpd_83_naa (se_dev cmd) buf)))))) = (b, len, off)
          \<and> length b = length buf \<and> off = len + 4 \<and> len \<le> 849"
proof -
  note i1 = evpd_83_naa_inv[of buf "se_dev cmd"]
  note i2 = evpd_83_t10_vend_desc_inv[OF i1 assms, simplified]
  note i3 = evpd_83_rtpi_inv[OF i2, simplified, of "se_lun cmd"]
  note i4 = evpd_83_tg_pt_gp_inv[OF i3, simplified, of "se_lun cmd"]
  note i5 = evpd_83_lu_gp_inv[OF i4, simplified, of "se_dev cmd"]
  note i6 = evpd_83_scsi_name_inv[OF i5, simplified, of "se_lun cmd"]
  note i7 = evpd_83_target_name_inv[OF i6, simplified, of "se_lun cmd"]
  show ?thesis using i7 by (auto simp: evpd_83_inv_def)
qed

lemma unat_of_nat_u16: "n < 65536 \<Longrightarrow> unat (word_of_nat n :: u16) = n"
  by (simp add: unat_of_nat take_bit_nat_eq_self)

text \<open>
  Claim C5.  After the VPD 0x83 generator has run, the big-endian 16-bit page
  length it patched into bytes 2 and 3 of the buffer is the number of bytes
  encoded less the 4-byte page header: the running offset at which encoding
  stopped is the patched length plus 4.  The model and serial strings are
  bounded by the arrays of \<open>struct t10_wwn\<close> that hold them.
\<close>

theorem spc_emulate_evpd_83_page_length:
  assumes "4 \<le> length buf"
    and "length (model (se_dev cmd)) \<le> INQUIRY_MODEL_LEN + 1"
    and "length (unit_serial (se_dev cmd)) \<le> INQUIRY_VPD_SERIAL_LEN"
  shows "\<exists>b len off. spc_emulate_evpd_83_run cmd buf = (b, len, off)
           \<and> spc_emulate_evpd_83 cmd buf = Inr b
           \<and> unat (get_unaligned_be16 b 2) = len
           \<and> off = unat (get_unaligned_be16 b 2) + 4"
proof -
  from assms(2,3) have "length (model (se_dev cmd)) \<le> 17" "length (unit_serial (se_dev cmd)) \<le> 254"
    by (simp_all add: scsi_proto)
  from evpd_83_run_inv[OF this, of buf] obtain b len off where
    st: "evpd_83_target_name (se_lun cmd) (evpd_83_scsi_name (se_lun cmd)
            (evpd_83_lu_gp (se_dev cmd) (evpd_83_tg_pt_gp (se_lun cmd) (evpd_83_rtpi (se_lun cmd)
            (evpd_83_t10_vend_desc (se_dev cmd) (evpd_83_naa (se_dev cmd) buf)))))) = (b, len, off)"
    and lb: "length b = length buf" and off: "off = len + 4" and le: "len \<le> 849"
    by blast
  have run: "spc_emulate_evpd_83_run cmd buf = (put_unaligned_be16 (word_of_nat len) b 2, len, off)"
    by (simp add: spc_emulate_evpd_83_run_def Let_def st)
  have "get_unaligned_be16 (put_unaligned_be16 (word_of_nat len) b 2) 2 = word_of_nat len"
    using assms(1) lb by (simp add: get_put_unaligned_be16)
  then have "unat (get_unaligned_be16 (put_unaligned_be16 (word_of_nat len) b 2) 2) = len"
    using le by (simp add: unat_of_nat_u16)
  then show ?thesis
    using run off by (simp add: spc_emulate_evpd_83_def)
qed

theorem spc_emulate_evpd_83_page_length_witness:
  "\<exists>b len off.
      spc_emulate_evpd_83_run (example_cmd [0x12, 1, 0x83, 0, 0xff, 0] 255 None)
        (replicate 128 0) = (b, len, off)
      \<and> spc_emulate_evpd_83 (example_cmd [0x12, 1, 0x83, 0, 0xff, 0] 255 None)
        (replicate 128 0) = Inr b
      \<and> unat (get_unaligned_be16 b 2) = len
      \<and> off = unat (get_unaligned_be16 b 2) + 4"
proof -
  have h: "length (model (se_dev (example_cmd [0x12, 1, 0x83, 0, 0xff, 0] 255 None)))
             \<le> INQUIRY_MODEL_LEN + 1"
     "length (unit_serial (se_dev (example_cmd [0x12, 1, 0x83, 0, 0xff, 0] 255 None)))
             \<le> INQUIRY_VPD_SERIAL_LEN"
    by (simp_all add: example_cmd_def example_dev_def scsi_proto)
  have l: "4 \<le> length (replicate 128 (0 :: u8))" by simp
  from spc_emulate_evpd_83_page_length [OF l h] show ?thesis .
qed

subsection \<open>INQUIRY\<close>

lemma nth_take_drop: "off + i < length b \<Longrightarrow> i < n \<Longrightarrow> take n (drop off b) ! i = b ! (off + i)"
  by simp

lemma inquiry_field_length [simp]: "length (inquiry_field w s) = w"
  by (simp add: inquiry_field_def)

lemma inquiry_field_nth:
  "i < w \<Longrightarrow> inquiry_field w s ! i = (if i < length (take w (cstr s)) then take w (cstr s) ! i else 0x20)"
  by (auto simp: inquiry_field_def nth_append)

lemma length_spc_fill_alua_data [simp]: "length (spc_fill_alua_data lun buf) = length buf"
  by (simp add: spc_fill_alua_data_def Let_def split: option.splits)

lemma nth_spc_fill_alua_data: "i \<noteq> 5 \<Longrightarrow> spc_fill_alua_data lun buf ! i = buf ! i"
  by (simp add: spc_fill_alua_data_def Let_def set_bits_def split: option.splits)

text \<open>
  Claim C7.  The standard INQUIRY data carries 91 in its additional-length
  byte (offset 4), and its vendor, model and revision fields are the 8, 16
  and 4 bytes at offsets 8, 16 and 32, each holding the attribute string cut
  to the field width and filled up on the right with ASCII spaces.
\<close>

theorem spc_emulate_inquiry_std_fields:
  assumes "se_sess cmd = Some sess" and "36 \<le> length buf"
  shows "\<exists>b. spc_emulate_inquiry_std cmd buf = Inr b
           \<and> b ! 4 = 91
           \<and> take 8 (drop 8 b) = inquiry_field 8 (vendor (se_dev cmd))
           \<and> take 16 (drop 16 b) = inquiry_field 16 (model (se_dev cmd))
           \<and> take 4 (drop 32 b) = inquiry_field 4 (revision (se_dev cmd))"
proof -
  obtain b where b: "spc_emulate_inquiry_std cmd buf = Inr b"
    using assms(1) by (simp add: spc_emulate_inquiry_std_def Let_def)
  have len: "length b = length buf"
    using b assms(1) by (auto simp: spc_emulate_inquiry_std_def Let_def)
  have nth: "\<And>i. 8 \<le> i \<Longrightarrow> i < 36 \<Longrightarrow> b ! i =
      (if i < 16 then (if i < 8 + length (take 8 (cstr (vendor (se_dev cmd))))
                       then take 8 (cstr (vendor (se_dev cmd))) ! (i - 8) else 0x20)
       else if i < 32 then (if i < 16 + length (take 16 (cstr (model (se_dev cmd))))
                       then take 16 (cstr (model (se_dev cmd))) ! (i - 16) else 0x20)
       else (if i < 32 + length (take 4 (cstr (revision (se_dev cmd))))
                       then take 4 (cstr (revision (se_dev cmd))) ! (i - 32) else 0x20))"
    using b assms
    by (auto simp: spc_emulate_inquiry_std_def Let_def scsi_proto take_strnlen nth_memcpy
        nth_memset nth_put_unaligned_be16 nth_set_bits nth_spc_fill_alua_data)
  have b4: "b ! 4 = 91"
    using b assms by (auto simp: spc_emulate_inquiry_std_def Let_def)
  have v: "take 8 (drop 8 b) = inquiry_field 8 (vendor (se_dev cmd))"
    using assms(2) len by (intro nth_equalityI) (auto simp: nth inquiry_field_nth)
  have m: "take 16 (drop 16 b) = inquiry_field 16 (model (se_dev cmd))"
    using assms(2) len by (intro nth_equalityI) (auto simp: nth inquiry_field_nth)
  have r: "take 4 (drop 32 b) = inquiry_field 4 (revision (se_dev cmd))"
    using assms(2) len by (intro nth_equalityI) (auto simp: nth inquiry_field_nth)
  show ?thesis using b b4 v m r by simp
qed


theorem spc_emulate_inquiry_std_fields_witness:
  "\<exists>b. spc_emulate_inquiry_std (example_cmd [0x12, 0, 0, 0, 96, 0] 96 None) (replicate 96 0) = Inr b
      \<and> b ! 4 = 91
      \<and> take 8 (drop 8 b) = [0x4c, 0x49, 0x4f, 0x2d, 0x4f, 0x52, 0x47, 0x20]
      \<and> take 16 (drop 16 b) = [0x64, 0x69, 0x73, 0x6b, 0x30] @ replicate 11 0x20
      \<and> take 4 (drop 32 b) = [0x34, 0x2e, 0x30, 0x20]"
  using spc_emulate_inquiry_std_fields [of "example_cmd [0x12, 0, 0, 0, 96, 0] 96 None"
      example_sess "replicate 96 0"]
  by (simp add: example_cmd_def example_dev_def inquiry_field_def cstr_def)





subsection \<open>MODE SENSE and MODE SELECT\<close>

text \<open>
  Claim C10.  A MODE SELECT (6 or 10) whose transfer length is zero completes
  at once with GOOD status: whatever the PF bit, the CDB and the data buffer
  are, no check is made and no error is raised.
\<close>

theorem spc_emulate_modeselect_zero_length:
  "data_length cmd = 0 \<Longrightarrow>
     spc_emulate_modeselect cmd =
       Inr \<lparr> scsi_status = SAM_STAT_GOOD, compl_length = None, data_sg = kmap_data_sg cmd \<rparr>"
  by (simp add: spc_emulate_modeselect_def Let_def)

theorem spc_emulate_modeselect_zero_length_witness:
  "spc_emulate_modeselect (example_cmd [0x15, 0x00, 0, 0, 0, 0] 0 None) =
       Inr \<lparr> scsi_status = SAM_STAT_GOOD, compl_length = None, data_sg = None \<rparr>
   \<and> spc_emulate_modeselect (example_cmd [0x55, 0x00, 0, 0, 0, 0, 0, 0, 0, 0] 0 (Some [0x3f, 0xff])) =
       Inr \<lparr> scsi_status = SAM_STAT_GOOD, compl_length = None, data_sg = Some [0x3f, 0xff] \<rparr>"
  using spc_emulate_modeselect_zero_length [of "example_cmd [0x15, 0x00, 0, 0, 0, 0] 0 None"]
    spc_emulate_modeselect_zero_length
      [of "example_cmd [0x55, 0x00, 0, 0, 0, 0, 0, 0, 0, 0] 0 (Some [0x3f, 0xff])"]
  by (simp add: example_cmd_def)

lemma length_modesense_header [simp]: "length (modesense_header cmd ten) = SE_MODE_PAGE_BUF"
  by (simp add: modesense_header_def Let_def spc_modesense_write_protect_def
      spc_modesense_dpofua_def)

lemma nth_modesense_header:
  "(if ten then 3 else 2) < i \<Longrightarrow> i < SE_MODE_PAGE_BUF \<Longrightarrow> modesense_header cmd ten ! i = 0"
  by (simp add: modesense_header_def Let_def spc_modesense_write_protect_def
      spc_modesense_dpofua_def nth_set_bits)

lemma registered_page_bits:
  "page \<in> {0x01, 0x08, 0x0a, 0x1c} \<Longrightarrow>
     drop_bit 6 page = 0 \<and> page AND 0x3f = page \<and> page AND 0x40 = (0 :: u8) \<and> page \<noteq> 0x3f"
  by auto

lemma find_modesense_handler:
  "page \<in> {0x01, 0x08, 0x0a, 0x1c} \<Longrightarrow>
     \<exists>h. find (\<lambda>(pg, sp, emulate). pg = page \<and> sp = 0) modesense_handlers = Some (page, 0, h)
        \<and> (page, 0, h) \<in> set modesense_handlers"
  by (auto simp: modesense_handlers_def)

lemma set_bits_update: "i < length b \<Longrightarrow> set_bits (b[i := v]) i w = b[i := v OR w]"
  by (simp add: set_bits_def)

lemma spc_modesense_control_form:
  assumes "se_sess cmd = Some sess"
  shows "\<exists>v2 v3 v4 v5. \<forall>buf p. p + 12 \<le> length buf \<longrightarrow>
           spc_modesense_control cmd 0 buf p =
             Some (buf[p := 0x0a, p + 1 := 0x0a, p + 2 := v2, p + 3 := v3, p + 4 := v4,
                       p + 5 := v5, p + 8 := 0xff, p + 9 := 0xff, p + 11 := 30], 12)"
proof -
  define v2 :: u8 where "v2 = (if sense_desc_format (se_dev cmd) then push_bit 1 1 OR push_bit 2 1 else push_bit 1 1)"
  define v3 :: u8 where "v3 = (if emulate_rest_reord (se_dev cmd) then 0x00 else 0x10)"
  define v4 :: u8 where "v4 = (case emulate_ua_intlck_ctrl (se_dev cmd) of
                       TARGET_UA_INTLCK_CTRL_ESTABLISH_UA \<Rightarrow> 0x30
                     | TARGET_UA_INTLCK_CTRL_NO_CLEAR \<Rightarrow> 0x20
                     | TARGET_UA_INTLCK_CTRL_CLEAR \<Rightarrow> 0x00)"
  define t5 :: u8 where "t5 = (if emulate_tas (se_dev cmd) then 0x40 else 0x00)"
  define v5 :: u8 where "v5 = (if sup_prot_pass sess \<and> prot_configured (se_dev cmd) sess
                     then t5 OR 0x80 else t5)"
  have "spc_modesense_control cmd 0 buf p =
             Some (buf[p := 0x0a, p + 1 := 0x0a, p + 2 := v2, p + 3 := v3, p + 4 := v4,
                       p + 5 := v5, p + 8 := 0xff, p + 9 := 0xff, p + 11 := 30], 12)"
    if "p + 12 \<le> length buf" for buf p
  proof -
    let ?b1 = "buf[p := 0x0a, p + 1 := 0x0a]"
    have s2: "(if sense_desc_format (se_dev cmd) then set_bits (?b1[p + 2 := push_bit 1 1]) (p + 2) (push_bit 2 1)
               else ?b1[p + 2 := push_bit 1 1]) = ?b1[p + 2 := v2]"
      using that by (simp add: v2_def set_bits_update)
    let ?b3 = "?b1[p + 2 := v2, p + 3 := v3]"
    have s4: "(case emulate_ua_intlck_ctrl (se_dev cmd) of
                       TARGET_UA_INTLCK_CTRL_ESTABLISH_UA \<Rightarrow> ?b3[p + 4 := 0x30]
                     | TARGET_UA_INTLCK_CTRL_NO_CLEAR \<Rightarrow> ?b3[p + 4 := 0x20]
                     | TARGET_UA_INTLCK_CTRL_CLEAR \<Rightarrow> ?b3[p + 4 := 0x00]) = ?b3[p + 4 := v4]"
      by (simp add: v4_def split: target_ua_intlck_ctrl.splits)
    let ?b4 = "?b3[p + 4 := v4]"
    have s5: "(if sup_prot_pass sess \<and> prot_configured (se_dev cmd) sess
                     then set_bits (?b4[p + 5 := t5]) (p + 5) 0x80 else ?b4[p + 5 := t5]) = ?b4[p + 5 := v5]"
      using that by (simp add: v5_def set_bits_update)
    show ?thesis
      unfolding spc_modesense_control_def Let_def
      using assms by (simp only: s2 s4 s5 v3_def[symmetric] t5_def[symmetric] option.case
          zero_neq_one if_False simp_thms)
  qed
  then show ?thesis by blast
qed

lemma modesense_handler_shift:
  assumes "se_sess cmd = Some sess" and "(pg, sp, h) \<in> set modesense_handlers"
    and "p + 20 \<le> length buf" and "\<And>i. p \<le> i \<Longrightarrow> i < p + 20 \<Longrightarrow> buf ! i = 0"
  shows "\<exists>b t n. h cmd 0 buf p = Some (b, n)
           \<and> h cmd 0 (replicate SE_MODE_PAGE_BUF 0) 0 = Some (t, n)
           \<and> 2 \<le> n \<and> n \<le> 20 \<and> length b = length buf
           \<and> (\<forall>i<p. b ! i = buf ! i) \<and> (\<forall>i<n. b ! (p + i) = t ! i) \<and> b ! p = pg"
proof -
  from assms(2) consider
      "pg = 0x01" "h = spc_modesense_rwrecovery"
    | "pg = 0x08" "h = spc_modesense_caching"
    | "pg = 0x0a" "h = spc_modesense_control"
    | "pg = 0x1c" "h = spc_modesense_informational_exceptions"
    by (auto simp: modesense_handlers_def)
  then show ?thesis
  proof cases
    case 1
    then show ?thesis using assms(3,4)
      by (simp add: spc_modesense_rwrecovery_def Let_def nth_list_update scsi_proto)
  next
    case 2
    then show ?thesis using assms(3,4)
      by (simp add: spc_modesense_caching_def Let_def nth_list_update scsi_proto)
  next
    case 3
    from spc_modesense_control_form[OF assms(1)] obtain v2 v3 v4 v5 where
      f: "\<And>buf p. p + 12 \<le> length buf \<Longrightarrow>
           spc_modesense_control cmd 0 buf p =
             Some (buf[p := 0x0a, p + 1 := 0x0a, p + 2 := v2, p + 3 := v3, p + 4 := v4,
                       p + 5 := v5, p + 8 := 0xff, p + 9 := 0xff, p + 11 := 30], 12)"
      by blast
    have a: "p + 12 \<le> length buf" using assms(3) by simp
    have z: "0 + 12 \<le> length (replicate SE_MODE_PAGE_BUF (0::u8))" by (simp add: scsi_proto)
    show ?thesis
      unfolding 3 f[OF a] f[OF z]
      using assms(3,4) by (simp add: nth_list_update scsi_proto)
  next
    case 4
    then show ?thesis using assms(3,4)
      by (simp add: spc_modesense_informational_exceptions_def Let_def nth_list_update scsi_proto)
  qed
qed


lemma spc_emulate_modesense_no_blockdesc:
  assumes pg: "page \<in> {0x01, 0x08, 0x0a, 0x1c}"
    and cdb2: "t_task_cdb cmd ! 2 = page" and cdb3: "t_task_cdb cmd ! 3 = 0"
    and nobd: "(t_task_cdb cmd ! 1) AND 0x08 \<noteq> 0 \<or> device_type (se_dev cmd) \<noteq> TYPE_DISK"
    and h: "find (\<lambda>(pg, sp, emulate). pg = page \<and> sp = 0) modesense_handlers = Some (page, 0, h)"
  shows "spc_emulate_modesense cmd =
           (case h cmd 0 (modesense_header cmd (t_task_cdb cmd ! 0 = MODE_SENSE_10))
                   (if t_task_cdb cmd ! 0 = MODE_SENSE_10 then 8 else 4) of
              None \<Rightarrow> Inl NULL_SESSION_DEREFERENCE
            | Some (b, n) \<Rightarrow>
                modesense_set_length cmd (t_task_cdb cmd ! 0 = MODE_SENSE_10) b
                  ((if t_task_cdb cmd ! 0 = MODE_SENSE_10 then 8 else 4) + n))"
proof -
  note bits = registered_page_bits[OF pg]
  have *: ?thesis if d: "(t_task_cdb cmd ! 1) AND 0x08 \<noteq> 0 \<or> device_type (se_dev cmd) \<noteq> TYPE_DISK"
      and t: "(t_task_cdb cmd ! 0 = MODE_SENSE_10) = ten" for ten
    unfolding spc_emulate_modesense_def Let_def cdb2 cdb3 t
    using h d
    by (cases ten; elim disjE)
       (simp_all add: bits modesense_header_def Let_def split del: if_split cong: option.case_cong if_cong)
  show ?thesis using *[OF nobd refl] .
qed

lemma take_memcpy_0: "n \<le> length src \<Longrightarrow> n \<le> length buf \<Longrightarrow> take n (memcpy buf 0 src) = take n src"
  by (intro nth_equalityI) (auto simp: nth_memcpy)

lemma spc_emulate_modeselect_match:
  assumes op: "sel ! 0 = MODE_SELECT \<or> sel ! 0 = MODE_SELECT_10"
    and off: "off = (if sel ! 0 = MODE_SELECT_10 then 8 else 4)"
    and pf: "(sel ! 1) AND 0x10 \<noteq> 0"
    and pg: "page \<in> {0x01, 0x08, 0x0a, 0x1c}"
    and h: "find (\<lambda>(pg, sp, emulate). pg = page \<and> sp = 0) modesense_handlers = Some (page, 0, h)"
    and t: "h c 0 (replicate SE_MODE_PAGE_BUF 0) 0 = Some (tbuf, n)"
    and c: "c = cmd\<lparr>t_task_cdb := sel, data_length := off + n, kmap_data_sg := Some buf\<rparr>"
    and n: "2 \<le> n"
    and b0: "buf ! off = page"
    and eq: "take n (drop off buf) = take n tbuf"
  shows "spc_emulate_modeselect c =
           Inr \<lparr> scsi_status = SAM_STAT_GOOD, compl_length = None, data_sg = Some buf \<rparr>"
proof -
  note bits = registered_page_bits[OF pg]
  have *: ?thesis if "(sel ! 0 = MODE_SELECT_10) = ten" for ten
    unfolding spc_emulate_modeselect_def Let_def
    using h t n eq b0 pf that
    by (cases ten)
       (simp_all add: c off bits split del: if_split cong: option.case_cong if_cong)
  show ?thesis using *[OF refl] .
qed


lemma modesense_handler_cmd:
  assumes "(pg, sp, h) \<in> set modesense_handlers" "se_dev c = se_dev cmd" "se_sess c = se_sess cmd"
  shows "h c pc buf p = h cmd pc buf p"
  using assms
  by (auto simp: modesense_handlers_def spc_modesense_rwrecovery_def spc_modesense_caching_def
      spc_modesense_control_def spc_modesense_informational_exceptions_def Let_def
      split del: if_split cong: if_cong)

lemma nth_modesense_set_length_buf:
  "0 < length b \<Longrightarrow> 2 \<le> i \<Longrightarrow> i < length b \<Longrightarrow>
     (if ten then put_unaligned_be16 v b 0 else b[0 := w]) ! i = b ! i"
  by (simp add: nth_put_unaligned_be16)

text \<open>
  Claim C1, amended.  For every registered page (0x01, 0x08, 0x0a, 0x1c, each
  with subpage 0x00) and every device state in which the MODE SENSE (6 or 10)
  data carries no block descriptor (DBD set in the CDB, or a device that is
  not a disk), the command completes with GOOD status and, when the data
  buffer holds the whole output, feeding that output back as the parameter
  list of the corresponding MODE SELECT with PF set completes with GOOD
  status.
\<close>

theorem modeselect_of_modesense_no_blockdesc:
  assumes sess: "se_sess cmd = Some sess"
    and pg: "page \<in> {0x01, 0x08, 0x0a, 0x1c}"
    and op: "t_task_cdb cmd ! 0 = MODE_SENSE \<or> t_task_cdb cmd ! 0 = MODE_SENSE_10"
    and cdb2: "t_task_cdb cmd ! 2 = page" and cdb3: "t_task_cdb cmd ! 3 = 0"
    and nobd: "(t_task_cdb cmd ! 1) AND 0x08 \<noteq> 0 \<or> device_type (se_dev cmd) \<noteq> TYPE_DISK"
    and map: "kmap_data_sg cmd = Some r" "length r = data_length cmd"
    and sel0: "sel ! 0 = (if t_task_cdb cmd ! 0 = MODE_SENSE_10 then MODE_SELECT_10 else MODE_SELECT)"
    and pf: "(sel ! 1) AND 0x10 \<noteq> 0"
  shows "\<exists>n out. spc_emulate_modesense cmd =
            Inr \<lparr> scsi_status = SAM_STAT_GOOD, compl_length = Some n, data_sg = Some out \<rparr>
          \<and> (n \<le> data_length cmd \<longrightarrow>
               spc_emulate_modeselect
                 (cmd\<lparr>t_task_cdb := sel, data_length := n, kmap_data_sg := Some (take n out)\<rparr>)
               = Inr \<lparr> scsi_status = SAM_STAT_GOOD, compl_length = None,
                       data_sg = Some (take n out) \<rparr>)"
proof -
  define ten where "ten = (t_task_cdb cmd ! 0 = MODE_SENSE_10)"
  define off :: nat where "off = (if ten then 8 else 4)"
  define hdr where "hdr = modesense_header cmd ten"
  from find_modesense_handler[OF pg] obtain h where
    fh: "find (\<lambda>(pg, sp, emulate). pg = page \<and> sp = 0) modesense_handlers = Some (page, 0, h)"
    and mem: "(page, 0, h) \<in> set modesense_handlers" by blast
  have lh: "length hdr = 512" by (simp add: hdr_def scsi_proto)
  have off48: "off = 4 \<or> off = 8" by (simp add: off_def)
  have zh: "hdr ! i = 0" if "off \<le> i" "i < off + 20" for i
    unfolding hdr_def using that off48
    by (intro nth_modesense_header) (auto simp: off_def scsi_proto split: if_splits)
  have "off + 20 \<le> length hdr" using off48 lh by auto
  from modesense_handler_shift[OF sess mem this zh] obtain b t n where
    hb: "h cmd 0 hdr off = Some (b, n)"
    and ht: "h cmd 0 (replicate SE_MODE_PAGE_BUF 0) 0 = Some (t, n)"
    and n2: "2 \<le> n" and n20: "n \<le> 20" and lb: "length b = length hdr"
    and bt: "\<forall>i<n. b ! (off + i) = t ! i" and bp: "b ! off = page"
    by blast
  define b' where "b' = (if ten then put_unaligned_be16 (word_of_nat (off + n - 2)) b 0
              else b[0 := word_of_nat (off + n - 1)])"
  define out where "out = memcpy r 0 (take (min SE_MODE_PAGE_BUF (data_length cmd)) b')"
  have lb': "length b' = 512" by (simp add: b'_def lb lh)
  have nb': "b' ! i = b ! i" if "2 \<le> i" "i < 512" for i
    unfolding b'_def using that lb lh by (intro nth_modesense_set_length_buf) auto
  have sense: "spc_emulate_modesense cmd =
            Inr \<lparr> scsi_status = SAM_STAT_GOOD, compl_length = Some (off + n), data_sg = Some out \<rparr>"
    unfolding spc_emulate_modesense_no_blockdesc[OF pg cdb2 cdb3 nobd fh]
    using hb by (simp add: ten_def[symmetric] off_def[symmetric] hdr_def[symmetric]
        modesense_set_length_def Let_def map out_def b'_def)
  have select: "spc_emulate_modeselect
                 (cmd\<lparr>t_task_cdb := sel, data_length := off + n,
                      kmap_data_sg := Some (take (off + n) out)\<rparr>)
               = Inr \<lparr> scsi_status = SAM_STAT_GOOD, compl_length = None,
                       data_sg = Some (take (off + n) out) \<rparr>"
    if fit: "off + n \<le> data_length cmd"
  proof -
    have on: "off + n \<le> 512" using off48 n20 by auto
    have tk: "take (off + n) out = take (off + n) b'"
      unfolding out_def using fit on lb' map(2)
      by (subst take_memcpy_0) (auto simp: scsi_proto min_def)
    define c where "c = cmd\<lparr>t_task_cdb := sel, data_length := off + n,
                      kmap_data_sg := Some (take (off + n) b')\<rparr>"
    have hc: "h c 0 (replicate SE_MODE_PAGE_BUF 0) 0 = Some (t, n)"
      using modesense_handler_cmd[OF mem, of c cmd] ht by (simp add: c_def)
    have so: "off = (if sel ! 0 = MODE_SELECT_10 then 8 else 4)"
      using sel0 by (auto simp: off_def ten_def scsi_proto)
    have sop: "sel ! 0 = MODE_SELECT \<or> sel ! 0 = MODE_SELECT_10"
      using sel0 by auto
    have p0: "take (off + n) b' ! off = page"
      using n2 on nb'[of off] bp off48 by auto
    have lt: "length t = 512"
      using ht mem
      by (auto simp: modesense_handlers_def spc_modesense_rwrecovery_def spc_modesense_caching_def
          spc_modesense_control_def spc_modesense_informational_exceptions_def Let_def scsi_proto
          split: if_splits option.splits target_ua_intlck_ctrl.splits)
    have eq: "take n (drop off (take (off + n) b')) = take n t"
    proof (intro nth_equalityI)
      show "length (take n (drop off (take (off + n) b'))) = length (take n t)"
        using on lb' lt n20 by simp
    next
      fix i assume "i < length (take n (drop off (take (off + n) b')))"
      then have i: "i < n" by simp
      then have "take n (drop off (take (off + n) b')) ! i = b' ! (off + i)"
        using on lb' by simp
      also have "\<dots> = b ! (off + i)" using i on off48 by (intro nb') auto
      also have "\<dots> = t ! i" using bt i by blast
      finally show "take n (drop off (take (off + n) b')) ! i = take n t ! i"
        using i by simp
    qed
    show ?thesis
      unfolding tk
      using spc_emulate_modeselect_match[OF sop so pf pg fh hc c_def n2 p0 eq]
      by (simp add: c_def)
  qed
  show ?thesis using sense select by blast
qed


theorem modeselect_of_modesense_no_blockdesc_witness:
  "spc_emulate_modesense (example_cmd [0x1a, 0x08, 0x0a, 0, 16, 0] 16 (Some (replicate 16 0))) =
     Inr \<lparr> scsi_status = SAM_STAT_GOOD, compl_length = Some 16,
           data_sg = Some [15, 0, 0, 0, 10, 10, 2, 16, 0, 64, 0, 0, 255, 255, 0, 30] \<rparr>
   \<and> spc_emulate_modeselect
        ((example_cmd [0x1a, 0x08, 0x0a, 0, 16, 0] 16 (Some (replicate 16 0)))
           \<lparr>t_task_cdb := [0x15, 0x10, 0, 0, 16, 0], data_length := 16,
            kmap_data_sg := Some [15, 0, 0, 0, 10, 10, 2, 16, 0, 64, 0, 0, 255, 255, 0, 30]\<rparr>) =
     Inr \<lparr> scsi_status = SAM_STAT_GOOD, compl_length = None,
           data_sg = Some [15, 0, 0, 0, 10, 10, 2, 16, 0, 64, 0, 0, 255, 255, 0, 30] \<rparr>"
proof -
  let ?c = "example_cmd [0x1a, 0x08, 0x0a, 0, 16, 0] 16 (Some (replicate 16 0))"
  have e: "spc_emulate_modesense ?c =
     Inr \<lparr> scsi_status = SAM_STAT_GOOD, compl_length = Some 16,
           data_sg = Some [15, 0, 0, 0, 10, 10, 2, 16, 0, 64, 0, 0, 255, 255, 0, 30] \<rparr>"
    by code_simp
  have h: "se_sess ?c = Some example_sess" "(0x0a :: u8) \<in> {0x01, 0x08, 0x0a, 0x1c}"
    "t_task_cdb ?c ! 0 = MODE_SENSE \<or> t_task_cdb ?c ! 0 = MODE_SENSE_10"
    "t_task_cdb ?c ! 2 = 0x0a" "t_task_cdb ?c ! 3 = 0"
    "(t_task_cdb ?c ! 1) AND 0x08 \<noteq> 0 \<or> device_type (se_dev ?c) \<noteq> TYPE_DISK"
    "kmap_data_sg ?c = Some (replicate 16 0)" "length (replicate 16 (0::u8)) = data_length ?c"
    "[0x15, 0x10, 0, 0, 16, 0] ! 0
       = (if t_task_cdb ?c ! 0 = MODE_SENSE_10 then MODE_SELECT_10 else MODE_SELECT)"
    "([0x15, 0x10, 0, 0, 16, 0 :: u8] ! 1) AND 0x10 \<noteq> 0"
    by (simp_all add: example_cmd_def scsi_proto)
  have d: "data_length ?c = 16" by (simp add: example_cmd_def)
  from modeselect_of_modesense_no_blockdesc [OF h] e d show ?thesis by auto
qed

text \<open>
  Claim C1 as stated fails on a disk with DBD clear: MODE SENSE(6) of the
  caching page puts an 8-byte block descriptor between the header and the
  page, and MODE SELECT(6), which reads the page at the fixed offset 4, takes
  the first byte of the block descriptor for the page code.
\<close>

theorem modeselect_of_modesense_counterexample:
  "spc_emulate_modesense (example_cmd [0x1a, 0, 0x08, 0, 32, 0] 32 (Some (replicate 32 0))) =
     Inr \<lparr> scsi_status = SAM_STAT_GOOD, compl_length = Some 32,
           data_sg = Some [31, 0, 0, 8, 0, 32, 0, 0, 0, 0, 2, 0, 8, 18, 0, 0,
                           0, 0, 0, 0, 0, 0, 0, 0, 32, 0, 0, 0, 0, 0, 0, 0] \<rparr>
   \<and> spc_emulate_modeselect (example_cmd [0x15, 0x10, 0, 0, 32, 0] 32
         (Some [31, 0, 0, 8, 0, 32, 0, 0, 0, 0, 2, 0, 8, 18, 0, 0,
                0, 0, 0, 0, 0, 0, 0, 0, 32, 0, 0, 0, 0, 0, 0, 0])) = Inl TCM_UNKNOWN_MODE_PAGE"
  by code_simp

subsection \<open>REPORT LUNS\<close>







subsection \<open>REPORT SUPPORTED OPERATION CODES\<close>

text \<open>
  Claim C2.  REPORTING OPTIONS is the three-bit field of CDB byte 2 (the
  table's own usage mask for that byte is 0x87).  The emulation keeps only
  two bits of it, \<open>opts = cdb[2] & 0x3\<close>, so its test \<open>opts > 3\<close> never
  holds: a CDB with reporting options 4 is served as reporting options 0,
  the list of all commands, with GOOD status.
\<close>

theorem rsoc_reporting_options_4_accepted:
  "spc_emulate_report_supp_op_codes
      (example_cmd [0xa3, 0x0c, 0x04, 0, 0, 0, 0, 0, 0, 8, 0, 0] 8 (Some (replicate 8 0))) =
     Inr \<lparr> scsi_status = SAM_STAT_GOOD, compl_length = Some 396,
           data_sg = Some [0, 0, 1, 136, 8, 0, 0, 0] \<rparr>"
  by code_simp

lemma rsoc_search_disabled:
  assumes a1: "\<forall>d'\<in>set tab. opcode d' = opcode d \<longrightarrow> serv_action_valid d' = serv_action_valid d"
    and a2: "\<forall>d'\<in>set tab. opcode d' = opcode d
               \<and> (serv_action_valid d \<longrightarrow> service_action d' = service_action d)
               \<longrightarrow> \<not> descr_enabled d' cmd"
    and opts: "opts = 1 \<or> opts = 2 \<or> opts = 3"
  shows "rsoc_search tab cmd opts (opcode d) (service_action d) =
           (if (\<exists>d'\<in>set tab. opcode d' = opcode d)
                \<and> ((opts = 1 \<and> serv_action_valid d) \<or> (opts = 2 \<and> \<not> serv_action_valid d))
            then Inl TCM_INVALID_CDB_FIELD else Inr None)"
  using a1 a2
proof (induction tab)
  case Nil
  then show ?case by simp
next
  case (Cons x tab)
  show ?case
  proof (cases "opcode x = opcode d")
    case False
    then show ?thesis using Cons by simp
  next
    case True
    then have sv: "serv_action_valid x = serv_action_valid d" using Cons.prems(1) by simp
    have dis: "serv_action_valid d \<longrightarrow> service_action x = service_action d \<Longrightarrow> \<not> descr_enabled x cmd"
      using Cons.prems(2) True by simp
    have ih: "rsoc_search tab cmd opts (opcode d) (service_action d) =
           (if (\<exists>d'\<in>set tab. opcode d' = opcode d)
                \<and> ((opts = 1 \<and> serv_action_valid d) \<or> (opts = 2 \<and> \<not> serv_action_valid d))
            then Inl TCM_INVALID_CDB_FIELD else Inr None)"
      using Cons by simp
    show ?thesis
      using opts True sv dis ih by (cases "serv_action_valid d") auto
  qed
qed

lemma tcm_supported_opcodes_keys:
  "distinct (map (\<lambda>d. (opcode d, service_action d)) tcm_supported_opcodes)"
  by (simp add: tcm_supported_opcodes_def opcode_descr scsi_proto)

lemma tcm_supported_opcodes_sav:
  "\<forall>d\<in>set tcm_supported_opcodes.
     (serv_action_valid d \<longleftrightarrow> opcode d \<in> {0x7f, 0x9e, 0x5e, 0x5f, 0x83, 0x84, 0xa3, 0xa4})
     \<and> (\<not> serv_action_valid d \<longrightarrow> service_action d = 0)"
  by (simp add: tcm_supported_opcodes_def opcode_descr scsi_proto)

lemma tcm_supported_opcodes_same:
  assumes "d \<in> set tcm_supported_opcodes" "d' \<in> set tcm_supported_opcodes"
    "opcode d' = opcode d"
  shows "serv_action_valid d' = serv_action_valid d"
    and "(serv_action_valid d \<longrightarrow> service_action d' = service_action d) \<Longrightarrow> d' = d"
proof -
  show sv: "serv_action_valid d' = serv_action_valid d"
    using assms tcm_supported_opcodes_sav by metis
  assume "serv_action_valid d \<longrightarrow> service_action d' = service_action d"
  then have "service_action d' = service_action d"
    using sv assms(1,2) tcm_supported_opcodes_sav by metis
  then have "(\<lambda>d. (opcode d, service_action d)) d' = (\<lambda>d. (opcode d, service_action d)) d"
    using assms(3) by simp
  then show "d' = d"
    using tcm_supported_opcodes_keys assms(1,2)
    by (meson distinct_map inj_onD)
qed


lemma nth_put_unaligned_be32:
  "i < length buf \<Longrightarrow> put_unaligned_be32 v buf off ! i =
     (if i = off then ucast (drop_bit 24 v) else if i = off + 1 then ucast (drop_bit 16 v)
      else if i = off + 2 then ucast (drop_bit 8 v) else if i = off + 3 then ucast v
      else buf ! i)"
  by (auto simp: put_unaligned_be32_def be32_def numeral_3_eq_3)

lemma lt8_cases: "(k::nat) < 8 \<Longrightarrow> k = 0 \<or> k = 1 \<or> k = 2 \<or> k = 3 \<or> k = 4 \<or> k = 5 \<or> k = 6 \<or> k = 7"
  by linarith

lemma lt20_cases:
  "(k::nat) < 20 \<Longrightarrow> k < 8 \<or> k = 8 \<or> k = 9 \<or> k = 10 \<or> k = 11 \<or> k = 12 \<or> k = 13
     \<or> k = 14 \<or> k = 15 \<or> k = 16 \<or> k = 17 \<or> k = 18 \<or> k = 19"
  by presburger

lemma length_rsoc_command_descriptor:
  "length (rsoc_command_descriptor rctd d) = 8 + (if rctd = 0 then 0 else 12)"
  by (simp add: rsoc_command_descriptor_def)

lemma length_spc_rsoc_encode_command_descriptor [simp]:
  "length (fst (spc_rsoc_encode_command_descriptor buf off rctd d)) = length buf"
  by (simp add: spc_rsoc_encode_command_descriptor_def
      spc_rsoc_encode_command_timeouts_descriptor_def Let_def split_def)

lemma snd_spc_rsoc_encode_command_descriptor:
  "snd (spc_rsoc_encode_command_descriptor buf off rctd d) = length (rsoc_command_descriptor rctd d)"
  by (simp add: spc_rsoc_encode_command_descriptor_def length_rsoc_command_descriptor
      spc_rsoc_encode_command_timeouts_descriptor_def Let_def split_def)

lemma spc_rsoc_encode_command_descriptor_frame:
  assumes "i < length buf" "i < off \<or> off + length (rsoc_command_descriptor rctd d) \<le> i"
  shows "fst (spc_rsoc_encode_command_descriptor buf off rctd d) ! i = buf ! i"
  using assms
  by (auto simp: spc_rsoc_encode_command_descriptor_def length_rsoc_command_descriptor
      spc_rsoc_encode_command_timeouts_descriptor_def Let_def split_def
      nth_put_unaligned_be16 nth_put_unaligned_be32 split: if_splits)

lemma spc_rsoc_encode_command_descriptor_head:
  assumes "off + 8 \<le> length buf" "\<And>i. off \<le> i \<Longrightarrow> i < off + 8 \<Longrightarrow> buf ! i = 0" "k < 8"
  shows "fst (spc_rsoc_encode_command_descriptor buf off rctd d) ! (off + k)
           = rsoc_command_descriptor rctd d ! k"
  using lt8_cases[OF assms(3)] assms(1) assms(2)[of "off + 1"] assms(2)[of "off + 4"]
  by (elim disjE)
     (simp_all add: spc_rsoc_encode_command_descriptor_def rsoc_command_descriptor_def
      spc_rsoc_encode_command_timeouts_descriptor_def Let_def split_def be16_def
      nth_put_unaligned_be16 nth_put_unaligned_be32)

end
